theory Spec2Isabelle
  imports Complex_Main
begin

section \<open>JavaScript values shared by the modules\<close>

text \<open>
  The widgets are JavaScript classes that mutate their own fields and the DOM elements they
  hold.  Every method is embedded as a function from the state before the call to a
  completion: either the method returned, or it threw; in both cases the completion carries
  the state as the method left it, since a JavaScript exception does not undo the
  assignments made before it.  The exceptions the modelled code can raise are the
  \<^verbatim>\<open>TypeError\<close> of a property access on \<^verbatim>\<open>null\<close> or \<^verbatim>\<open>undefined\<close> (or of a call of
  something that is not a function), and the \<^verbatim>\<open>DOMException\<close> of a class list given a
  token with white space.
\<close>

datatype js_error = TypeError | DOMException

datatype 's completion = Return 's | Throw js_error 's

fun state_of :: "'s completion \<Rightarrow> 's" where
  "state_of (Return s) = s"
| "state_of (Throw e s) = s"

fun threw :: "'s completion \<Rightarrow> bool" where
  "threw (Return s) = False"
| "threw (Throw e s) = True"

text \<open>Sequencing of statements: the rest of a method body runs only if the first part returned.\<close>

fun and_then :: "'s completion \<Rightarrow> ('s \<Rightarrow> 's completion) \<Rightarrow> 's completion" where
  "and_then (Return s) f = f s"
| "and_then (Throw e s) f = Throw e s"

text \<open>
  Pixel quantities are JavaScript numbers, that is, IEEE 754 binary64 values.  A finite value
  is modelled by the real number it denotes; \<^verbatim>\<open>Infinity\<close>, \<^verbatim>\<open>-Infinity\<close> and \<^verbatim>\<open>NaN\<close>
  are kept apart, because a division by a zero \<^verbatim>\<open>slidesToShow\<close> or an overflow produces
  them and every comparison with \<^verbatim>\<open>NaN\<close> is false.  The sign of zero is not modelled.
\<close>

datatype jsnum = Num real | PosInf | NegInf | NaN

text \<open>
  Every arithmetic operation returns the binary64 value nearest to its exact result, ties going
  to the even significand.  The binary exponent of a real is found by halving or doubling, at
  most as often as the format has exponents: it is clamped to the range from \<open>-1022\<close>
  (below which the values are subnormal and keep the spacing of the lowest binade) to \<open>1023\<close>.
\<close>

fun halvings :: "nat \<Rightarrow> real \<Rightarrow> int" where
  "halvings 0 x = 0"
| "halvings (Suc n) x = (if 2 \<le> x then 1 + halvings n (x / 2) else 0)"

fun doublings :: "nat \<Rightarrow> real \<Rightarrow> int" where
  "doublings 0 x = 0"
| "doublings (Suc n) x = (if x < 1 then 1 + doublings n (2 * x) else 0)"

definition exponent :: "real \<Rightarrow> int" where
  "exponent x = (if 1 \<le> \<bar>x\<bar> then halvings 1023 \<bar>x\<bar> else - doublings 1022 \<bar>x\<bar>)"

text \<open>The spacing of the binary64 values around \<open>x\<close>: 52 bits below the exponent.\<close>

definition ulp :: "real \<Rightarrow> real" where
  "ulp x = 2 powi (exponent x - 52)"

definition nearest_even :: "real \<Rightarrow> int" where
  "nearest_even z =
     (let n = \<lfloor>z\<rfloor>; f = z - of_int n
      in if f < 1 / 2 then n else if 1 / 2 < f then n + 1 else if even n then n else n + 1)"

definition rounded :: "real \<Rightarrow> real" where
  "rounded x = of_int (nearest_even (x / ulp x)) * ulp x"

text \<open>A result that rounds to \<open>2 ^ 1024\<close> or beyond overflows to an infinity.\<close>

definition huge :: real where
  "huge = 2 ^ 1024"

definition fl :: "real \<Rightarrow> jsnum" where
  "fl x =
     (let r = rounded x
      in if huge \<le> r then PosInf else if r \<le> - huge then NegInf else Num r)"

text \<open>The reals that are binary64 values, and the values a JavaScript number can have.\<close>

definition is_double :: "real \<Rightarrow> bool" where
  "is_double r = (fl r = Num r)"

fun is_number :: "jsnum \<Rightarrow> bool" where
  "is_number (Num a) = is_double a"
| "is_number PosInf = True"
| "is_number NegInf = True"
| "is_number NaN = True"

fun jneg :: "jsnum \<Rightarrow> jsnum" where
  "jneg (Num a) = Num (- a)"
| "jneg PosInf = NegInf"
| "jneg NegInf = PosInf"
| "jneg NaN = NaN"

fun jadd :: "jsnum \<Rightarrow> jsnum \<Rightarrow> jsnum" where
  "jadd (Num a) (Num b) = fl (a + b)"
| "jadd NaN y = NaN"
| "jadd x NaN = NaN"
| "jadd PosInf NegInf = NaN"
| "jadd NegInf PosInf = NaN"
| "jadd PosInf y = PosInf"
| "jadd x PosInf = PosInf"
| "jadd NegInf y = NegInf"
| "jadd x NegInf = NegInf"

definition jsub :: "jsnum \<Rightarrow> jsnum \<Rightarrow> jsnum" where
  "jsub x y = jadd x (jneg y)"

fun jmul :: "jsnum \<Rightarrow> jsnum \<Rightarrow> jsnum" where
  "jmul (Num a) (Num b) = fl (a * b)"
| "jmul NaN y = NaN"
| "jmul x NaN = NaN"
| "jmul (Num a) y = (if a = 0 then NaN else if 0 < a then y else jneg y)"
| "jmul x (Num b) = (if b = 0 then NaN else if 0 < b then x else jneg x)"
| "jmul PosInf y = y"
| "jmul NegInf y = jneg y"

text \<open>
  Division; a zero divisor gives an infinity or \<^verbatim>\<open>NaN\<close>, an infinite divisor gives zero
  or \<^verbatim>\<open>NaN\<close>.
\<close>

fun jdiv :: "jsnum \<Rightarrow> jsnum \<Rightarrow> jsnum" where
  "jdiv (Num a) (Num b) =
     (if b \<noteq> 0 then fl (a / b)
      else if a = 0 then NaN
      else if 0 < a then PosInf else NegInf)"
| "jdiv NaN y = NaN"
| "jdiv x NaN = NaN"
| "jdiv (Num a) y = Num 0"
| "jdiv x (Num b) = (if 0 \<le> b then x else jneg x)"
| "jdiv x y = NaN"

fun jless :: "jsnum \<Rightarrow> jsnum \<Rightarrow> bool" where
  "jless (Num a) (Num b) = (a < b)"
| "jless NaN y = False"
| "jless x NaN = False"
| "jless NegInf y = (y \<noteq> NegInf)"
| "jless PosInf y = False"
| "jless (Num a) PosInf = True"
| "jless (Num a) NegInf = False"

section \<open>Carousel (src/js/modules/carousel.js)\<close>

subsection \<open>The DOM elements a carousel holds\<close>

text \<open>
  \<^verbatim>\<open>querySelector\<close> returns an element or \<^verbatim>\<open>null\<close>; an element is a record of the
  properties the carousel reads or writes.  The padding fields are the results of
  \<^verbatim>\<open>parseFloat\<close> on the computed style (\<open>None\<close> for \<^verbatim>\<open>NaN\<close>); \<open>transform\<close> is the pixel
  argument of the \<^verbatim>\<open>translateX\<close> in the inline style (\<open>None\<close> while the style has none).
\<close>

record viewport_el =
  offsetWidth :: real

record track_el =
  classList :: "string set"
  transform :: "real option"
  transition :: string
  paddingLeft :: "real option"
  paddingRight :: "real option"

record button_el =
  disabled :: bool
  aria_disabled :: "string option"

text \<open>The container element passed to the constructor, as its queries answer.\<close>

record carousel_element =
  is_featured :: bool
  q_viewport :: "viewport_el option"
  q_track :: "track_el option"
  q_slides :: nat
  q_prevButton :: "button_el option"
  q_nextButton :: "button_el option"

record carousel_options =
  opt_slidesToShow :: "int option"
  opt_slidesToScroll :: "int option"
  opt_infinite :: "bool option"
  opt_autoplay :: "bool option"
  opt_autoplaySpeed :: "int option"
  opt_speed :: "int option"

text \<open>
  The fields of a \<^verbatim>\<open>Carousel\<close> object.  \<open>featured\<close>, \<open>cursor\<close> and \<open>live_region\<close> belong
  to the container element; \<open>live_region\<close> is the announced pair (slide number, total), \<open>None\<close>
  while the region does not exist.  \<open>listening\<close> records that the event listeners were
  installed, \<open>autoplayInterval\<close> that an interval timer is set.
\<close>

record carousel =
  featured :: bool
  cursor :: string
  live_region :: "(int \<times> int) option"
  viewport :: "viewport_el option"
  track :: "track_el option"
  prevButton :: "button_el option"
  nextButton :: "button_el option"
  slidesToShow :: int
  slidesToScroll :: int
  infinite :: bool
  autoplay :: bool
  autoplaySpeed :: int
  speed :: int
  currentIndex :: int
  totalSlides :: int
  isDragging :: bool
  startPos :: real
  currentTranslate :: jsnum
  prevTranslate :: jsnum
  autoplayInterval :: bool
  listening :: bool

text \<open>A mouse event carries \<^verbatim>\<open>pageX\<close>, a touch event the \<^verbatim>\<open>clientX\<close> of its touches.\<close>

datatype drag_event = MouseEvent real | TouchEvent "real list"

subsection \<open>Methods\<close>

definition getMaxIndex :: "carousel \<Rightarrow> int" where
  "getMaxIndex c = max 0 (totalSlides c - slidesToShow c)"

definition updateSlidesToShow :: "int \<Rightarrow> carousel \<Rightarrow> carousel" where
  "updateSlidesToShow width c =
     (c\<lparr>slidesToShow :=
          (if width \<ge> 1440 then (if featured c then 4 else 3)
           else if width \<ge> 1024 then (if featured c then 4 else 2)
           else if width \<ge> 768 then 2
           else 1)\<rparr>)\<lparr>slidesToScroll := 1\<rparr>"

definition stopAutoplay :: "carousel \<Rightarrow> carousel" where
  "stopAutoplay c = (if autoplayInterval c then c\<lparr>autoplayInterval := False\<rparr> else c)"

definition startAutoplay :: "carousel \<Rightarrow> carousel" where
  "startAutoplay c =
     (if \<not> autoplay c then c else (stopAutoplay c)\<lparr>autoplayInterval := True\<rparr>)"

definition getPositionX :: "drag_event \<Rightarrow> real option" where
  "getPositionX e =
     (case e of
        MouseEvent pageX \<Rightarrow> Some pageX
      | TouchEvent touches \<Rightarrow> (case touches of [] \<Rightarrow> None | clientX # _ \<Rightarrow> Some clientX))"

definition or_zero :: "real option \<Rightarrow> real" where
  "or_zero p = (case p of None \<Rightarrow> 0 | Some x \<Rightarrow> x)"

text \<open>
  The assignment \<^verbatim>\<open>style.transform = `translateX(${x}px)`\<close>: the style takes the
  declaration only if it parses, which \<^verbatim>\<open>translateX(NaNpx)\<close> and
  \<^verbatim>\<open>translateX(Infinitypx)\<close> do not; the previous value then stays.
\<close>

definition set_translateX :: "jsnum \<Rightarrow> track_el \<Rightarrow> track_el" where
  "set_translateX x t = (case x of Num a \<Rightarrow> t\<lparr>transform := Some a\<rparr> | _ \<Rightarrow> t)"

definition updateCarousel :: "bool \<Rightarrow> carousel \<Rightarrow> carousel completion" where
  "updateCarousel animate c =
     (case track c of
        None \<Rightarrow> Throw TypeError c
      | Some t \<Rightarrow>
          (case viewport c of
             None \<Rightarrow> Throw TypeError c
           | Some v \<Rightarrow>
               (let gap = Num 8;
                    trackPaddingLeft = Num (or_zero (paddingLeft t));
                    trackPaddingRight = Num (or_zero (paddingRight t));
                    totalPadding = jadd trackPaddingLeft trackPaddingRight;
                    viewportWidth = Num (offsetWidth v);
                    availableWidth = jsub viewportWidth totalPadding;
                    slideWidth = jdiv availableWidth (Num (of_int (slidesToShow c)));
                    offset = jmul (Num (- of_int (currentIndex c))) (jadd slideWidth gap);
                    t1 = (if \<not> animate then t\<lparr>transition := ''none''\<rparr> else t);
                    t2 = set_translateX offset t1
                in Return (c\<lparr>track := Some t2, prevTranslate := offset,
                             currentTranslate := offset\<rparr>))))"

definition set_disabled :: "bool \<Rightarrow> button_el \<Rightarrow> button_el" where
  "set_disabled d b =
     b\<lparr>disabled := d, aria_disabled := Some (if d then ''true'' else ''false'')\<rparr>"

definition updateButtons :: "carousel \<Rightarrow> carousel" where
  "updateButtons c =
     (let maxIndex = getMaxIndex c;
          c1 = (case prevButton c of
                  None \<Rightarrow> c
                | Some b \<Rightarrow>
                    c\<lparr>prevButton :=
                        Some (set_disabled (currentIndex c = 0 \<and> \<not> infinite c) b)\<rparr>)
      in (case nextButton c1 of
            None \<Rightarrow> c1
          | Some b \<Rightarrow>
              c1\<lparr>nextButton :=
                   Some (set_disabled (currentIndex c1 \<ge> maxIndex \<and> \<not> infinite c1) b)\<rparr>))"

definition announceSlide :: "carousel \<Rightarrow> carousel" where
  "announceSlide c = c\<lparr>live_region := Some (currentIndex c + 1, totalSlides c)\<rparr>"

definition add_track_class :: "string \<Rightarrow> carousel \<Rightarrow> carousel completion" where
  "add_track_class cls c =
     (case track c of
        None \<Rightarrow> Throw TypeError c
      | Some t \<Rightarrow> Return (c\<lparr>track := Some (t\<lparr>classList := insert cls (classList t)\<rparr>)\<rparr>))"

definition remove_track_class :: "string \<Rightarrow> carousel \<Rightarrow> carousel completion" where
  "remove_track_class cls c =
     (case track c of
        None \<Rightarrow> Throw TypeError c
      | Some t \<Rightarrow> Return (c\<lparr>track := Some (t\<lparr>classList := classList t - {cls}\<rparr>)\<rparr>))"

text \<open>
  \<^verbatim>\<open>goToSlide\<close> assigns the clamped index first; the class change and
  \<^verbatim>\<open>updateCarousel\<close> that follow may throw.  The timeout that later removes the animating
  class only touches that class and is not part of the call.
\<close>

definition goToSlide :: "int \<Rightarrow> bool \<Rightarrow> carousel \<Rightarrow> carousel completion" where
  "goToSlide index animate c =
     (let maxIndex = getMaxIndex c;
          c1 = c\<lparr>currentIndex := max 0 (min index maxIndex)\<rparr>
      in and_then
           (if animate then add_track_class ''carousel__track--animating'' c1 else Return c1)
           (\<lambda>c2. and_then (updateCarousel animate c2)
              (\<lambda>c3. Return (announceSlide (updateButtons c3)))))"

definition "next" :: "carousel \<Rightarrow> carousel completion" where
  "next c =
     (let maxIndex = getMaxIndex c
      in if currentIndex c < maxIndex then goToSlide (currentIndex c + slidesToScroll c) True c
         else if infinite c then goToSlide 0 True c
         else Return c)"

definition prev :: "carousel \<Rightarrow> carousel completion" where
  "prev c =
     (if currentIndex c > 0 then goToSlide (currentIndex c - slidesToScroll c) True c
      else if infinite c then goToSlide (getMaxIndex c) True c
      else Return c)"

definition dragStart :: "drag_event \<Rightarrow> carousel \<Rightarrow> carousel completion" where
  "dragStart e c =
     (let c1 = c\<lparr>isDragging := True\<rparr>
      in (case getPositionX e of
            None \<Rightarrow> Throw TypeError c1
          | Some x \<Rightarrow>
              and_then (add_track_class ''carousel__track--dragging'' (c1\<lparr>startPos := x\<rparr>))
                (\<lambda>c2. Return (stopAutoplay (c2\<lparr>cursor := ''grabbing''\<rparr>)))))"

definition set_transform :: "jsnum \<Rightarrow> carousel \<Rightarrow> carousel completion" where
  "set_transform x c =
     (case track c of
        None \<Rightarrow> Throw TypeError c
      | Some t \<Rightarrow> Return (c\<lparr>track := Some (set_translateX x t)\<rparr>))"

definition dragMove :: "drag_event \<Rightarrow> carousel \<Rightarrow> carousel completion" where
  "dragMove e c =
     (if \<not> isDragging c then Return c
      else (case getPositionX e of
              None \<Rightarrow> Throw TypeError c
            | Some currentPosition \<Rightarrow>
                (let diff = jsub (Num currentPosition) (Num (startPos c));
                     c1 = c\<lparr>currentTranslate := jadd (prevTranslate c) diff\<rparr>
                 in set_transform (currentTranslate c1) c1)))"

definition dragEnd :: "carousel \<Rightarrow> carousel completion" where
  "dragEnd c =
     (if \<not> isDragging c then Return c
      else and_then (remove_track_class ''carousel__track--dragging'' (c\<lparr>isDragging := False\<rparr>))
        (\<lambda>c1.
           (let c2 = c1\<lparr>cursor := ''grab''\<rparr>;
                movedBy = jsub (currentTranslate c2) (prevTranslate c2);
                threshold = 50
            in and_then
                 (if jless movedBy (Num (- threshold)) \<and> currentIndex c2 < getMaxIndex c2
                  then next c2
                  else if jless (Num threshold) movedBy \<and> currentIndex c2 > 0
                  then prev c2
                  else goToSlide (currentIndex c2) True c2)
                 (\<lambda>c3. Return (if autoplay c3 then startAutoplay c3 else c3)))))"

text \<open>
  \<^verbatim>\<open>setupEventListeners\<close> registers the click, keyboard and drag handlers; the drag handlers
  are registered on the track.
\<close>

definition setupEventListeners :: "carousel \<Rightarrow> carousel completion" where
  "setupEventListeners c =
     (case track c of
        None \<Rightarrow> Throw TypeError c
      | Some t \<Rightarrow> Return (c\<lparr>listening := True\<rparr>))"

definition carousel_init :: "int \<Rightarrow> carousel \<Rightarrow> carousel completion" where
  "carousel_init innerWidth c =
     and_then (setupEventListeners (updateSlidesToShow innerWidth c))
       (\<lambda>c1. and_then (updateCarousel True c1)
          (\<lambda>c2. (let c3 = updateButtons c2
                  in Return (if autoplay c3 then startAutoplay c3 else c3))))"

text \<open>
  The options object: each default is \<^verbatim>\<open>options.x || default\<close>, and the trailing spread
  \<^verbatim>\<open>...options\<close> then overwrites every key the caller supplied with the supplied value.
\<close>

definition or_default :: "int option \<Rightarrow> int \<Rightarrow> int" where
  "or_default v d = (case v of None \<Rightarrow> d | Some n \<Rightarrow> if n = 0 then d else n)"

definition spread :: "'a option \<Rightarrow> 'a \<Rightarrow> 'a" where
  "spread v d = (case v of None \<Rightarrow> d | Some x \<Rightarrow> x)"

definition constructed :: "carousel_element \<Rightarrow> carousel_options \<Rightarrow> carousel" where
  "constructed element options =
     \<lparr>featured = is_featured element,
      cursor = '''',
      live_region = None,
      viewport = q_viewport element,
      track = q_track element,
      prevButton = q_prevButton element,
      nextButton = q_nextButton element,
      slidesToShow = spread (opt_slidesToShow options)
                       (or_default (opt_slidesToShow options) 1),
      slidesToScroll = spread (opt_slidesToScroll options)
                         (or_default (opt_slidesToScroll options) 1),
      infinite = spread (opt_infinite options)
                   (case opt_infinite options of None \<Rightarrow> False | Some b \<Rightarrow> b),
      autoplay = spread (opt_autoplay options)
                   (case opt_autoplay options of None \<Rightarrow> False | Some b \<Rightarrow> b),
      autoplaySpeed = spread (opt_autoplaySpeed options)
                        (or_default (opt_autoplaySpeed options) 3000),
      speed = spread (opt_speed options) (or_default (opt_speed options) 300),
      currentIndex = 0,
      totalSlides = int (q_slides element),
      isDragging = False,
      startPos = 0,
      currentTranslate = Num 0,
      prevTranslate = Num 0,
      autoplayInterval = False,
      listening = False\<rparr>"

text \<open>
  The constructor assigns the fields and then runs \<^verbatim>\<open>init\<close> under its guard
  \<^verbatim>\<open>this.carousel && this.track && this.slides.length > 0\<close>; the container itself is
  an element, hence truthy.
\<close>

definition Carousel :: "carousel_element \<Rightarrow> carousel_options \<Rightarrow> int \<Rightarrow> carousel completion" where
  "Carousel element options innerWidth =
     (let c = constructed element options
      in if track c \<noteq> None \<and> totalSlides c > 0 then carousel_init innerWidth c else Return c)"

text \<open>The debounced resize handler installed by \<^verbatim>\<open>init\<close>.\<close>

definition on_resize :: "int \<Rightarrow> carousel \<Rightarrow> carousel completion" where
  "on_resize innerWidth c =
     and_then (goToSlide (currentIndex c) False (updateSlidesToShow innerWidth c))
       (\<lambda>c1. Return (updateButtons c1))"

subsection \<open>Notions used by the carousel properties\<close>

text \<open>The index invariant of the data model.\<close>

definition in_range :: "carousel \<Rightarrow> bool" where
  "in_range c = (0 \<le> currentIndex c \<and> currentIndex c \<le> getMaxIndex c)"

text \<open>Sequences of navigation calls; a call that throws leaves the state it reached.\<close>

datatype carousel_op = Next | Prev | GoToSlide int bool

fun exec_op :: "carousel_op \<Rightarrow> carousel \<Rightarrow> carousel completion" where
  "exec_op Next c = next c"
| "exec_op Prev c = prev c"
| "exec_op (GoToSlide i animate) c = goToSlide i animate c"

definition run_ops :: "carousel_op list \<Rightarrow> carousel \<Rightarrow> carousel" where
  "run_ops ops c = foldl (\<lambda>s op. state_of (exec_op op s)) c ops"

text \<open>
  A carousel whose \<^verbatim>\<open>init\<close> has run and that is idle: the anchors exist, the layout
  parameters are those \<^verbatim>\<open>updateSlidesToShow\<close> assigns, the index is in range, and the track
  rests at the offset \<^verbatim>\<open>updateCarousel\<close> computed, which is a JavaScript number.
\<close>

definition ready :: "carousel \<Rightarrow> bool" where
  "ready c =
     (track c \<noteq> None \<and> viewport c \<noteq> None \<and> slidesToShow c \<noteq> 0 \<and> slidesToScroll c = 1 \<and>
      in_range c \<and> \<not> isDragging c \<and> is_number (prevTranslate c) \<and>
      currentTranslate c = prevTranslate c)"

text \<open>
  A completed drag gesture: pointer down, any number of pointer moves, pointer up.  Its net
  displacement is the last pointer position minus the first.
\<close>

fun dragMoves :: "drag_event list \<Rightarrow> carousel \<Rightarrow> carousel completion" where
  "dragMoves [] c = Return c"
| "dragMoves (e # es) c = and_then (dragMove e c) (dragMoves es)"

definition gesture :: "drag_event \<Rightarrow> drag_event list \<Rightarrow> carousel \<Rightarrow> carousel completion" where
  "gesture e es c = and_then (dragStart e c) (\<lambda>c1. and_then (dragMoves es c1) dragEnd)"

definition displacement :: "real \<Rightarrow> real list \<Rightarrow> real" where
  "displacement x0 xs = (if xs = [] then 0 else last xs - x0)"

text \<open>
  What \<^verbatim>\<open>dragEnd\<close> compares with the threshold is not that displacement but
  \<^verbatim>\<open>movedBy = currentTranslate - prevTranslate\<close>, where the last \<^verbatim>\<open>dragMove\<close> has set
  \<^verbatim>\<open>currentTranslate = prevTranslate + (position - startPos)\<close>: three operations, each of
  which rounds.  For a gesture from the position \<open>x0\<close> through the positions \<open>xs\<close> on a
  track resting at \<open>p\<close>:
\<close>

definition movedBy :: "jsnum \<Rightarrow> real \<Rightarrow> real list \<Rightarrow> jsnum" where
  "movedBy p x0 xs =
     jsub (if xs = [] then p else jadd p (jsub (Num (last xs)) (Num x0))) p"



text \<open>The state of a drag in progress that started from \<open>c\<close>.\<close>

definition dragging :: "carousel \<Rightarrow> carousel \<Rightarrow> bool" where
  "dragging c c' =
     (isDragging c' \<and> track c' \<noteq> None \<and> viewport c' = viewport c \<and>
      currentIndex c' = currentIndex c \<and> totalSlides c' = totalSlides c \<and>
      slidesToShow c' = slidesToShow c \<and> slidesToScroll c' = slidesToScroll c \<and>
      infinite c' = infinite c \<and> prevTranslate c' = prevTranslate c)"

text \<open>The step function of \<^verbatim>\<open>updateSlidesToShow\<close>.\<close>

definition step_width :: "bool \<Rightarrow> int \<Rightarrow> int" where
  "step_width f w =
     (if w \<ge> 1440 then (if f then 4 else 3)
      else if w \<ge> 1024 then (if f then 4 else 2)
      else if w \<ge> 768 then 2
      else 1)"

text \<open>
  Concrete carousels: a container with six slides, as \<^verbatim>\<open>main.js\<close> constructs it on a
  desktop window (three slides visible, \<open>maxIndex = 3\<close>); the same container without its
  viewport element; and an infinite carousel moved to its last index.
\<close>

definition demo_track :: track_el where
  "demo_track =
     \<lparr>classList = {}, transform = None, transition = '''',
      paddingLeft = Some 16, paddingRight = Some 16\<rparr>"

definition demo_button :: button_el where
  "demo_button = \<lparr>disabled = False, aria_disabled = None\<rparr>"

definition six_slides :: carousel_element where
  "six_slides =
     \<lparr>is_featured = False, q_viewport = Some \<lparr>offsetWidth = 1232\<rparr>,
      q_track = Some demo_track, q_slides = 6,
      q_prevButton = Some demo_button, q_nextButton = Some demo_button\<rparr>"

definition six_slides_no_viewport :: carousel_element where
  "six_slides_no_viewport = six_slides\<lparr>q_viewport := None\<rparr>"

definition main_options :: carousel_options where
  "main_options =
     \<lparr>opt_slidesToShow = None, opt_slidesToScroll = None, opt_infinite = Some False,
      opt_autoplay = Some False, opt_autoplaySpeed = None, opt_speed = None\<rparr>"

definition infinite_options :: carousel_options where
  "infinite_options = main_options\<lparr>opt_infinite := Some True\<rparr>"

definition infinite_at_end :: carousel where
  "infinite_at_end =
     state_of (goToSlide 3 True (state_of (Carousel six_slides infinite_options 1440)))"

text \<open>
  The carousel of \<^verbatim>\<open>main.js\<close> after one \<^verbatim>\<open>next()\<close>: index 1, the track at \<open>-408\<close>
  pixels (slides of 400 pixels and a gap of 8).
\<close>

definition at_second_slide :: carousel where
  "at_second_slide = state_of (next (state_of (Carousel six_slides main_options 1440)))"

text \<open>An idle carousel with its anchors, wherever its track was left.\<close>

definition anchored :: "carousel \<Rightarrow> bool" where
  "anchored c =
     (track c \<noteq> None \<and> viewport c \<noteq> None \<and> slidesToShow c \<noteq> 0 \<and> slidesToScroll c = 1 \<and>
      \<not> isDragging c)"

section \<open>Theme switcher (src/js/modules/theme-switcher.js, class ThemeSwitcher)\<close>

text \<open>
  The state the theme switcher works on: its button (\<open>None\<close> when the page has no
  \<^verbatim>\<open>.theme-switcher\<close>), the \<^verbatim>\<open>data-theme\<close> attribute of the document element, the
  value stored under the key \<^verbatim>\<open>techpioneers-theme\<close>, and the browser facilities it calls.
  \<open>getItem_throws\<close> and \<open>setItem_throws\<close> say that storage is unavailable for reading or
  for writing; \<open>change_listeners\<close> and \<open>click_listeners\<close> count the handlers registered so
  far; \<open>console\<close> collects the warnings.
\<close>

record theme_button =
  aria_label :: "string option"
  icons_animating :: bool

record theme_page =
  themeButton :: "theme_button option"
  data_theme :: "string option"
  stored :: "string option"
  getItem_throws :: bool
  setItem_throws :: bool
  matchMedia :: bool
  prefers_dark :: bool
  prefers_reduced_motion :: bool
  mq_addEventListener :: bool
  mq_addListener :: bool
  change_listeners :: nat
  click_listeners :: nat
  console :: "string list"

definition LIGHT :: string where
  "LIGHT = ''light''"

definition DARK :: string where
  "DARK = ''dark''"

text \<open>JavaScript truthiness of a value that is a string or \<^verbatim>\<open>null\<close>.\<close>

definition truthy :: "string option \<Rightarrow> bool" where
  "truthy v = (case v of None \<Rightarrow> False | Some s \<Rightarrow> s \<noteq> '''')"

text \<open>The operator \<^verbatim>\<open>||\<close> on such a value and a string.\<close>

definition or_else :: "string option \<Rightarrow> string \<Rightarrow> string" where
  "or_else v d = (case v of None \<Rightarrow> d | Some s \<Rightarrow> if s = '''' then d else s)"

definition warn :: "string \<Rightarrow> theme_page \<Rightarrow> theme_page" where
  "warn msg s = s\<lparr>console := console s @ [msg]\<rparr>"

definition savePreference :: "string \<Rightarrow> theme_page \<Rightarrow> theme_page" where
  "savePreference theme s =
     (if setItem_throws s then warn ''Failed to save theme preference:'' s
      else s\<lparr>stored := Some theme\<rparr>)"

definition loadPreference :: "theme_page \<Rightarrow> string option \<times> theme_page" where
  "loadPreference s =
     (if getItem_throws s then (None, warn ''Failed to load theme preference:'' s)
      else (stored s, s))"

definition getSystemPreference :: "theme_page \<Rightarrow> string" where
  "getSystemPreference s = (if matchMedia s \<and> prefers_dark s then DARK else LIGHT)"

definition getCurrentTheme :: "theme_page \<Rightarrow> string" where
  "getCurrentTheme s = or_else (data_theme s) LIGHT"

definition setTheme :: "string \<Rightarrow> theme_page \<Rightarrow> theme_page completion" where
  "setTheme theme0 s =
     (let theme = (if theme0 \<in> set [LIGHT, DARK] then theme0 else LIGHT);
          s1 = s\<lparr>data_theme := Some theme\<rparr>;
          label = (if theme = DARK then ''Switch to light theme'' else ''Switch to dark theme'')
      in (case themeButton s1 of
            None \<Rightarrow> Throw TypeError s1
          | Some b \<Rightarrow>
              Return (savePreference theme
                (s1\<lparr>themeButton := Some (b\<lparr>aria_label := Some label\<rparr>)\<rparr>))))"

text \<open>
  \<^verbatim>\<open>animateIcon\<close> calls \<^verbatim>\<open>window.matchMedia\<close> without the test that
  \<^verbatim>\<open>getSystemPreference\<close> makes.  The timeout that ends the animation is not part of the call.
\<close>

definition animateIcon :: "theme_page \<Rightarrow> theme_page completion" where
  "animateIcon s =
     (case themeButton s of
        None \<Rightarrow> Throw TypeError s
      | Some b \<Rightarrow>
          if \<not> matchMedia s then Throw TypeError s
          else if prefers_reduced_motion s then Return s
          else Return (s\<lparr>themeButton := Some (b\<lparr>icons_animating := True\<rparr>)\<rparr>))"

definition toggle :: "theme_page \<Rightarrow> theme_page completion" where
  "toggle s =
     (let currentTheme = getCurrentTheme s;
          newTheme = (if currentTheme = LIGHT then DARK else LIGHT)
      in and_then (setTheme newTheme s) animateIcon)"

definition watchSystemPreference :: "theme_page \<Rightarrow> theme_page" where
  "watchSystemPreference s =
     (if \<not> matchMedia s then s
      else if mq_addEventListener s then s\<lparr>change_listeners := Suc (change_listeners s)\<rparr>
      else if mq_addListener s then s\<lparr>change_listeners := Suc (change_listeners s)\<rparr>
      else s)"

definition theme_init :: "theme_page \<Rightarrow> theme_page completion" where
  "theme_init s =
     (let (savedTheme, s1) = loadPreference s;
          systemTheme = getSystemPreference s1;
          initialTheme = or_else savedTheme systemTheme
      in and_then (setTheme initialTheme s1)
           (\<lambda>s2. Return (watchSystemPreference
                           (s2\<lparr>click_listeners := Suc (click_listeners s2)\<rparr>))))"

definition ThemeSwitcher :: "theme_page \<Rightarrow> theme_page completion" where
  "ThemeSwitcher s = (if themeButton s \<noteq> None then theme_init s else Return s)"

text \<open>The handler \<^verbatim>\<open>watchSystemPreference\<close> registers for a change of the OS colour scheme.\<close>

definition on_system_change :: "bool \<Rightarrow> theme_page \<Rightarrow> theme_page completion" where
  "on_system_change matches s =
     (let (pref, s1) = loadPreference s
      in if \<not> truthy pref then setTheme (if matches then DARK else LIGHT) s1
         else Return s1)"

text \<open>
  An event runs every registered handler in turn; an exception in one handler is reported and
  does not stop the others.
\<close>

definition dispatch :: "nat \<Rightarrow> (theme_page \<Rightarrow> theme_page completion) \<Rightarrow> theme_page \<Rightarrow> theme_page" where
  "dispatch n handler s = ((\<lambda>x. state_of (handler x)) ^^ n) s"

definition system_change :: "bool \<Rightarrow> theme_page \<Rightarrow> theme_page" where
  "system_change matches s =
     dispatch (change_listeners s) (on_system_change matches) (s\<lparr>prefers_dark := matches\<rparr>)"

definition click :: "theme_page \<Rightarrow> theme_page" where
  "click s = dispatch (click_listeners s) toggle s"

subsection \<open>Notions used by the theme properties\<close>

definition valid_theme :: "string option \<Rightarrow> bool" where
  "valid_theme v = (v = Some LIGHT \<or> v = Some DARK)"

datatype theme_op = Init | Toggle | SetTheme string | SystemChange bool

fun exec_theme_op :: "theme_op \<Rightarrow> theme_page \<Rightarrow> theme_page" where
  "exec_theme_op Init s = state_of (theme_init s)"
| "exec_theme_op Toggle s = state_of (toggle s)"
| "exec_theme_op (SetTheme t) s = state_of (setTheme t s)"
| "exec_theme_op (SystemChange m) s = system_change m s"

definition run_theme_ops :: "theme_op list \<Rightarrow> theme_page \<Rightarrow> theme_page" where
  "run_theme_ops ops s = foldl (\<lambda>x op. exec_theme_op op x) s ops"

text \<open>
  A first visit: the button exists, nothing is stored, storage works, the OS prefers light.
\<close>

definition first_visit :: theme_page where
  "first_visit =
     \<lparr>themeButton = Some \<lparr>aria_label = None, icons_animating = False\<rparr>,
      data_theme = None, stored = None, getItem_throws = False, setItem_throws = False,
      matchMedia = True, prefers_dark = False, prefers_reduced_motion = False,
      mq_addEventListener = True, mq_addListener = True,
      change_listeners = 0, click_listeners = 0, console = []\<rparr>"

text \<open>The same page after initialisation, with the stored value removed again.\<close>

definition storage_cleared :: theme_page where
  "storage_cleared = (state_of (ThemeSwitcher first_visit))\<lparr>stored := None\<rparr>"

text \<open>
  The same page after initialisation, when another tab of the site has stored the dark theme
  in the meantime.
\<close>

definition other_tab :: theme_page where
  "other_tab = (state_of (ThemeSwitcher first_visit))\<lparr>stored := Some DARK\<rparr>"

text \<open>A visit with a corrupted stored value.\<close>

definition corrupted_visit :: theme_page where
  "corrupted_visit = first_visit\<lparr>stored := Some ''blue'', prefers_dark := True\<rparr>"

text \<open>A visit on which storage rejects every write, as when the quota is exhausted.\<close>

definition unwritable_visit :: theme_page where
  "unwritable_visit = first_visit\<lparr>setItem_throws := True, prefers_dark := True\<rparr>"

text \<open>
  What initialisation establishes and every operation keeps: the button exists, the applied
  theme is one of the two values, and it is the stored value unless storage rejects writes.
\<close>

definition in_sync :: "theme_page \<Rightarrow> bool" where
  "in_sync s =
     (themeButton s \<noteq> None \<and> valid_theme (data_theme s) \<and>
      (if setItem_throws s then True else stored s = data_theme s))"

section \<open>Modal (src/js/modules/theme-switcher.js, class Modal)\<close>

subsection \<open>The static lookup table and JavaScript property access\<close>

record pioneer =
  p_name :: string
  p_role :: string
  p_image :: string
  p_bio :: string
  p_achievements :: "string list"
  p_years :: string

definition katherine_johnson :: pioneer where
  "katherine_johnson =
     \<lparr>p_name = ''Katherine Johnson'',
      p_role = ''NASA Mathematician'',
      p_image = ''/assets/images/katherine_johnson.svg'',
      p_bio =
        ''Katherine Johnson was an American mathematician whose calculations of orbital mechanics as a NASA employee were critical to the success of the first and subsequent U.S. crewed spaceflights. Her precise calculations were essential to the success of the Mercury and Apollo missions, including the historic Apollo 11 moon landing.'',
      p_achievements =
        [''Calculated trajectories for Project Mercury and Apollo 11 moon landing'',
         ''Received Presidential Medal of Freedom in 2015'',
         ''Subject of the Academy Award-nominated film Hidden Figures (2016)'',
         ''Pioneer in breaking barriers for African American women in STEM fields'',
         ''Her work ensured the safe return of astronauts from space''],
      p_years = ''1918 - 2020''\<rparr>"

definition claude_shannon :: pioneer where
  "claude_shannon =
     \<lparr>p_name = ''Claude Shannon'',
      p_role = ''Mathematician & Electrical Engineer'',
      p_image = ''/assets/images/claude_shannon.svg'',
      p_bio =
        ''Claude Shannon was an American mathematician, electrical engineer, and cryptographer known as 'the father of information theory'. His master's thesis demonstrated that electrical applications of Boolean algebra could construct any logical numerical relationship, laying the foundation for digital circuit design.'',
      p_achievements =
        [''Founded information theory and digital circuit design theory'',
         ''Published landmark paper 'A Mathematical Theory of Communication' (1948)'',
         ''Developed sampling theorem fundamental to digital communications'',
         ''Made significant contributions to cryptography during World War II'',
         ''Pioneered artificial intelligence and computer chess''],
      p_years = ''1916 - 2001''\<rparr>"

definition radia_perlman :: pioneer where
  "radia_perlman =
     \<lparr>p_name = ''Radia Perlman'',
      p_role = ''Computer Scientist & Network Engineer'',
      p_image = ''/assets/images/radia_perlman.svg'',
      p_bio =
        ''Radia Perlman is an American computer scientist and network engineer, often called the 'Mother of the Internet'. She invented the Spanning Tree Protocol (STP), which is fundamental to the operation of network bridges and has made significant contributions to network design and standardization.'',
      p_achievements =
        [''Invented the Spanning Tree Protocol (STP) for network stability'',
         ''Made fundamental contributions to network routing protocols'',
         ''Received numerous awards including SIGCOMM Award and Internet Hall of Fame induction'',
         ''Holds over 100 patents in network technologies'',
         (''Author of influential textbook 'Interconnections: Bridges, Routers, Switches, and Internetworking Protocols'' @ [CHR 0x27])],
      p_years = ''1951 - Present''\<rparr>"

definition vint_cerf :: pioneer where
  "vint_cerf =
     \<lparr>p_name = ''Vint Cerf'',
      p_role = ''Computer Scientist & Internet Pioneer'',
      p_image = ''/assets/images/vint_cerf.svg'',
      p_bio =
        ''Vinton Gray Cerf is an American Internet pioneer and is recognized as one of 'the fathers of the Internet'. He co-designed the TCP/IP protocols and the architecture of the Internet with Robert Kahn. His contributions have been fundamental to the development and expansion of the Internet worldwide.'',
      p_achievements =
        [''Co-designed TCP/IP protocols that power the Internet'',
         ''Received Turing Award (1983) and Presidential Medal of Freedom (2005)'',
         ''Served as vice president and Chief Internet Evangelist at Google'',
         ''Founding president of the Internet Society'',
         ''Continues to advocate for Internet accessibility and open standards''],
      p_years = ''1943 - Present''\<rparr>"

definition shafrira_goldwasser :: pioneer where
  "shafrira_goldwasser =
     \<lparr>p_name = ''Shafi Goldwasser'',
      p_role = ''Computer Scientist & Cryptographer'',
      p_image = ''/assets/images/shafrira_goldwasser.svg'',
      p_bio =
        ''Shafi Goldwasser is an Israeli-American computer scientist and winner of the Turing Award in 2012. She is known for her pioneering work in cryptography and computational complexity theory, particularly in the areas of probabilistic encryption, zero-knowledge proofs, and complexity-based cryptography.'',
      p_achievements =
        [''Received Turing Award (2012) for contributions to cryptography'',
         ''Co-inventor of zero-knowledge proofs'',
         ''Pioneer in probabilistic encryption and interactive proof systems'',
         ''Professor at MIT and Weizmann Institute of Science'',
         ''Founded cryptography companies and mentored numerous computer scientists''],
      p_years = ''1958 - Present''\<rparr>"

definition donald_knuth :: pioneer where
  "donald_knuth =
     \<lparr>p_name = ''Donald Knuth'',
      p_role = ''Computer Scientist & Mathematician'',
      p_image = ''/assets/images/donald_knuth.svg'',
      p_bio =
        ''Donald Ervin Knuth is an American computer scientist and mathematician, often called the 'father of the analysis of algorithms'. He is best known as the author of the multi-volume work 'The Art of Computer Programming', one of the most respected references in computer science. He also created the TeX typesetting system.'',
      p_achievements =
        [''Author of 'The Art of Computer Programming', the seminal work in computer science'',
         ''Created the TeX typesetting system and METAFONT font design system'',
         ''Received Turing Award (1974) and numerous other prestigious honors'',
         ''Pioneered the analysis of algorithm complexity and computational theory'',
         ''Professor Emeritus at Stanford University''],
      p_years = ''1938 - Present''\<rparr>"

definition pioneersData :: "(string \<times> pioneer) list" where
  "pioneersData =
     [(''katherine-johnson'', katherine_johnson),
      (''claude-shannon'', claude_shannon),
      (''radia-perlman'', radia_perlman),
      (''vint-cerf'', vint_cerf),
      (''shafrira-goldwasser'', shafrira_goldwasser),
      (''donald-knuth'', donald_knuth)]"

text \<open>
  \<^verbatim>\<open>this.pioneersData[pioneerId]\<close> is a property access on an object literal: it answers
  with the own property of that name and otherwise follows the prototype chain to
  \<^verbatim>\<open>Object.prototype\<close>, whose members are functions (\<^verbatim>\<open>constructor\<close> is the function named
  \<^verbatim>\<open>Object\<close>, every other one is named like its key) and the accessor \<^verbatim>\<open>__proto__\<close>, which
  answers with the prototype object itself.  Only a name found nowhere gives \<^verbatim>\<open>undefined\<close>.
\<close>

datatype looked_up = Undefined | Record pioneer | Function string | Prototype

definition object_prototype_get :: "string \<Rightarrow> looked_up" where
  "object_prototype_get key =
     (if key = ''constructor'' then Function ''Object''
      else if key \<in> set [''__defineGetter__'', ''__defineSetter__'', ''hasOwnProperty'',
                          ''__lookupGetter__'', ''__lookupSetter__'', ''isPrototypeOf'',
                          ''propertyIsEnumerable'', ''toString'', ''valueOf'',
                          ''toLocaleString'']
      then Function key
      else if key = ''__proto__'' then Prototype
      else Undefined)"

definition property_get :: "(string \<times> pioneer) list \<Rightarrow> string \<Rightarrow> looked_up" where
  "property_get table key =
     (case map_of table key of Some p \<Rightarrow> Record p | None \<Rightarrow> object_prototype_get key)"

text \<open>Every object and every function is truthy.\<close>

fun is_truthy :: "looked_up \<Rightarrow> bool" where
  "is_truthy Undefined = False"
| "is_truthy (Record p) = True"
| "is_truthy (Function n) = True"
| "is_truthy Prototype = True"

text \<open>
  The properties \<^verbatim>\<open>updateContent\<close> reads from the value it is given; \<open>None\<close> is
  \<^verbatim>\<open>undefined\<close>.  A function has a \<^verbatim>\<open>name\<close> and none of the other properties.
\<close>

fun get_name :: "looked_up \<Rightarrow> string option" where
  "get_name (Record p) = Some (p_name p)"
| "get_name (Function n) = Some n"
| "get_name v = None"

fun get_string :: "(pioneer \<Rightarrow> string) \<Rightarrow> looked_up \<Rightarrow> string option" where
  "get_string field (Record p) = Some (field p)"
| "get_string field v = None"

fun get_achievements :: "looked_up \<Rightarrow> string list option" where
  "get_achievements (Record p) = Some (p_achievements p)"
| "get_achievements v = None"

text \<open>
  Conversion to a string, in a template literal or for a DOM string attribute; the setter of
  \<^verbatim>\<open>textContent\<close> takes a nullable string and turns \<^verbatim>\<open>undefined\<close> into the empty string.
\<close>

definition to_string :: "string option \<Rightarrow> string" where
  "to_string v = (case v of None \<Rightarrow> ''undefined'' | Some s \<Rightarrow> s)"

definition to_text :: "string option \<Rightarrow> string" where
  "to_text v = (case v of None \<Rightarrow> '''' | Some s \<Rightarrow> s)"

subsection \<open>The dialog\<close>

text \<open>
  The elements the modal holds, each \<open>None\<close> when \<^verbatim>\<open>getElementById\<close> finds nothing.  The
  content element is represented by what its markup shows: the biography paragraph and the
  items of the achievement list.  Focusable elements are identified by numbers.
\<close>

record avatar_el =
  src :: string
  alt :: string

record content_el =
  biography :: string
  list_items :: "string list"

record backdrop_el =
  backdrop_active :: bool
  aria_hidden :: "string option"

record dialog_el =
  focusables :: "nat list"
  keydown_listeners :: nat

record modal =
  modalBackdrop :: "backdrop_el option"
  modal_dialog :: "dialog_el option"
  closeButton :: bool
  modalAvatar :: "avatar_el option"
  modalTitle :: "string option"
  modalSubtitle :: "string option"
  modalContent :: "content_el option"
  isOpen :: bool
  focusableElements :: "nat list"
  firstFocusableElement :: "nat option"
  lastFocusableElement :: "nat option"
  previousActiveElement :: "nat option"
  activeElement :: "nat option"
  body_modal_open :: bool
  modal_console :: "string list"

definition updateContent :: "looked_up \<Rightarrow> modal \<Rightarrow> modal completion" where
  "updateContent data m =
     (let m1 = (case modalAvatar m of
                  None \<Rightarrow> m
                | Some a \<Rightarrow>
                    m\<lparr>modalAvatar :=
                        Some (a\<lparr>src := to_string (get_string p_image data),
                                alt := to_string (get_name data)\<rparr>)\<rparr>);
          m2 = (case modalTitle m1 of
                  None \<Rightarrow> m1
                | Some t \<Rightarrow> m1\<lparr>modalTitle := Some (to_text (get_name data))\<rparr>);
          m3 = (case modalSubtitle m2 of
                  None \<Rightarrow> m2
                | Some t \<Rightarrow>
                    m2\<lparr>modalSubtitle :=
                         Some (to_string (get_string p_role data) @ '' ('' @
                               to_string (get_string p_years data) @ '')'')\<rparr>)
      in (case modalContent m3 of
            None \<Rightarrow> Return m3
          | Some c \<Rightarrow>
              (case get_achievements data of
                 None \<Rightarrow> Throw TypeError m3
               | Some achievements \<Rightarrow>
                   Return (m3\<lparr>modalContent :=
                              Some (c\<lparr>biography := to_string (get_string p_bio data),
                                      list_items := achievements\<rparr>)\<rparr>))))"

definition setFocusTrap :: "modal \<Rightarrow> modal completion" where
  "setFocusTrap m =
     (case modal_dialog m of
        None \<Rightarrow> Throw TypeError m
      | Some d \<Rightarrow>
          (let m1 = m\<lparr>focusableElements := focusables d\<rparr>
           in if length (focusableElements m1) > 0
              then Return (m1\<lparr>firstFocusableElement := Some (hd (focusableElements m1)),
                              lastFocusableElement := Some (last (focusableElements m1)),
                              modal_dialog :=
                                Some (d\<lparr>keydown_listeners := Suc (keydown_listeners d)\<rparr>)\<rparr>)
              else Return m1))"

text \<open>
  \<^verbatim>\<open>open(pioneerId)\<close>.  The timeout that later focuses the close button is not part of the
  call.
\<close>

definition modal_open :: "string \<Rightarrow> modal \<Rightarrow> modal completion" where
  "modal_open pioneerId m =
     (let pioneerData = property_get pioneersData pioneerId
      in if \<not> is_truthy pioneerData
         then Return (m\<lparr>modal_console :=
                           modal_console m @ [''Pioneer data not found for ID: '' @ pioneerId]\<rparr>)
         else and_then (updateContent pioneerData m)
           (\<lambda>m1.
              (let m2 = m1\<lparr>previousActiveElement := activeElement m1\<rparr>
               in (case modalBackdrop m2 of
                     None \<Rightarrow> Throw TypeError m2
                   | Some b \<Rightarrow>
                       and_then
                         (setFocusTrap
                            (m2\<lparr>modalBackdrop :=
                                   Some (b\<lparr>backdrop_active := True, aria_hidden := Some ''false''\<rparr>),
                                 body_modal_open := True\<rparr>))
                         (\<lambda>m3. Return (m3\<lparr>isOpen := True\<rparr>))))))"

definition modal_close :: "modal \<Rightarrow> modal completion" where
  "modal_close m =
     (case modalBackdrop m of
        None \<Rightarrow> Throw TypeError m
      | Some b \<Rightarrow>
          (let m1 = m\<lparr>modalBackdrop :=
                        Some (b\<lparr>backdrop_active := False, aria_hidden := Some ''true''\<rparr>),
                      body_modal_open := False\<rparr>;
               m2 = (case previousActiveElement m1 of
                       None \<Rightarrow> m1
                     | Some e \<Rightarrow> m1\<lparr>activeElement := Some e\<rparr>)
           in Return (m2\<lparr>isOpen := False\<rparr>)))"

subsection \<open>Notions used by the modal properties\<close>

text \<open>What the dialog displays.\<close>

definition displayed ::
  "modal \<Rightarrow> string option \<times> string option \<times> avatar_el option \<times> content_el option" where
  "displayed m = (modalTitle m, modalSubtitle m, modalAvatar m, modalContent m)"

text \<open>
  A page with every element of the dialog, and the modal after a card was opened and closed
  again.
\<close>

definition blank_modal :: modal where
  "blank_modal =
     \<lparr>modalBackdrop = Some \<lparr>backdrop_active = False, aria_hidden = Some ''true''\<rparr>,
      modal_dialog = Some \<lparr>focusables = [0], keydown_listeners = 0\<rparr>,
      closeButton = True,
      modalAvatar = Some \<lparr>src = '''', alt = ''''\<rparr>,
      modalTitle = Some '''',
      modalSubtitle = Some '''',
      modalContent = Some \<lparr>biography = '''', list_items = []\<rparr>,
      isOpen = False,
      focusableElements = [],
      firstFocusableElement = None,
      lastFocusableElement = None,
      previousActiveElement = None,
      activeElement = Some 7,
      body_modal_open = False,
      modal_console = []\<rparr>"

definition viewed_modal :: modal where
  "viewed_modal = state_of (modal_close (state_of (modal_open ''vint-cerf'' blank_modal)))"

section \<open>Scroll spy (src/js/modules/navigation.js, Navigation.setupScrollSpy)\<close>

text \<open>
  The page as the scroll spy sees it: the anchors of the document in document order, each
  with its \<^verbatim>\<open>href\<close> attribute (\<open>None\<close> when it has none) and its class list; the elements
  that carry an id, in document order, with their geometry; and the scroll position.  A link
  is identified by its position in \<open>links\<close>.
\<close>

record nav_link =
  href :: "string option"
  link_classes :: "string set"

record section_el =
  offsetTop :: real
  offsetHeight :: real

record nav_page =
  links :: "nav_link list"
  elements :: "(string \<times> section_el) list"
  pageYOffset :: real

definition querySelectorAll :: "string \<Rightarrow> nav_page \<Rightarrow> nat list" where
  "querySelectorAll cls p = filter (\<lambda>i. cls \<in> link_classes (links p ! i)) [0..<length (links p)]"

definition mobileNavLinks :: "nav_page \<Rightarrow> nat list" where
  "mobileNavLinks p = querySelectorAll ''header__mobile-nav-link'' p"

definition desktopNavLinks :: "nav_page \<Rightarrow> nat list" where
  "desktopNavLinks p = querySelectorAll ''header__nav-link'' p"

definition allNavLinks :: "nav_page \<Rightarrow> nat list" where
  "allNavLinks p = mobileNavLinks p @ desktopNavLinks p"

text \<open>\<^verbatim>\<open>getElementById\<close> answers with the first element of that id, and with \<^verbatim>\<open>null\<close> for the empty id.\<close>

definition getElementById :: "nav_page \<Rightarrow> string \<Rightarrow> section_el option" where
  "getElementById p targetId = (if targetId = '''' then None else map_of (elements p) targetId)"

definition startsWith_hash :: "string \<Rightarrow> bool" where
  "startsWith_hash h = (case h of [] \<Rightarrow> False | c # _ \<Rightarrow> c = CHR ''#'')"

text \<open>
  The sections registered by \<^verbatim>\<open>setupScrollSpy\<close>: one entry for every link, in the order of
  \<^verbatim>\<open>allNavLinks\<close>, whose \<^verbatim>\<open>href\<close> is a fragment naming an existing element.
\<close>

definition register_link :: "nav_page \<Rightarrow> nat \<Rightarrow> (string \<times> section_el) list" where
  "register_link p i =
     (case href (links p ! i) of
        None \<Rightarrow> []
      | Some h \<Rightarrow>
          if startsWith_hash h
          then (case getElementById p (tl h) of
                  None \<Rightarrow> []
                | Some section \<Rightarrow> [(tl h, section)])
          else [])"

definition sections :: "nav_page \<Rightarrow> (string \<times> section_el) list" where
  "sections p = concat (map (register_link p) (allNavLinks p))"

text \<open>The loop that finds the current section: every matching section overwrites the variable.\<close>

definition contains_position :: "real \<Rightarrow> string \<times> section_el \<Rightarrow> bool" where
  "contains_position scrollPosition section =
     (let sectionTop = offsetTop (snd section);
          sectionBottom = sectionTop + offsetHeight (snd section)
      in scrollPosition \<ge> sectionTop \<and> scrollPosition < sectionBottom)"

definition find_current :: "real \<Rightarrow> (string \<times> section_el) list \<Rightarrow> string option" where
  "find_current scrollPosition secs =
     foldl (\<lambda>currentSection section.
              if contains_position scrollPosition section then Some (fst section)
              else currentSection)
       None secs"

text \<open>The template literal \<^verbatim>\<open>`#${currentSection}`\<close>; \<^verbatim>\<open>null\<close> is spelled out.\<close>

definition fragment :: "string option \<Rightarrow> string" where
  "fragment currentSection =
     ''#'' @ (case currentSection of None \<Rightarrow> ''null'' | Some targetId \<Rightarrow> targetId)"

definition mark_link :: "string option \<Rightarrow> nav_link \<Rightarrow> nav_link" where
  "mark_link currentSection link =
     (if href link = Some (fragment currentSection)
      then link\<lparr>link_classes :=
                  insert (if ''header__nav-link'' \<in> link_classes link
                          then ''header__nav-link--active''
                          else ''header__mobile-nav-link--active'')
                    (link_classes link)\<rparr>
      else link\<lparr>link_classes :=
                  link_classes link -
                    {''header__nav-link--active'', ''header__mobile-nav-link--active''}\<rparr>)"

definition updateActiveLink :: "nav_page \<Rightarrow> nav_page" where
  "updateActiveLink p =
     (let scrollPosition = pageYOffset p + 100;
          currentSection = find_current scrollPosition (sections p)
      in p\<lparr>links :=
             foldl (\<lambda>ls i. ls[i := mark_link currentSection (ls ! i)]) (links p)
               (allNavLinks p)\<rparr>)"

subsection \<open>Notions used by the scroll-spy property\<close>








section \<open>Scroll animations (src/js/modules/navigation.js, class AnimationController)\<close>

subsection \<open>The document\<close>

text \<open>
  The elements of the document in document order; an element is identified by its position.
  Besides its class list, attributes and the two \<^verbatim>\<open>dataset\<close> entries the controller
  writes, an element carries the shape of the tree around it, which the controller never
  changes: its ancestors and its descendants.
\<close>

record element =
  tag :: string
  el_classes :: "string set"
  attrs :: "string \<Rightarrow> string option"
  animationType :: "string option"
  staggerIndex :: "nat option"
  ancestors :: "nat list"
  descendants :: "nat list"

datatype selector = ClassSel string | AttrSel string | TagSel string | AttrEq string string

fun matches :: "selector \<Rightarrow> element \<Rightarrow> bool" where
  "matches (ClassSel c) e = (c \<in> el_classes e)"
| "matches (AttrSel a) e = (attrs e a \<noteq> None)"
| "matches (TagSel t) e = (tag e = t)"
| "matches (AttrEq a v) e = (attrs e a = Some v)"

text \<open>A selector list, as in \<^verbatim>\<open>"a, b"\<close>.\<close>

definition matches_any :: "selector list \<Rightarrow> element \<Rightarrow> bool" where
  "matches_any sels e = list_ex (\<lambda>sel. matches sel e) sels"

definition document_querySelectorAll :: "selector list \<Rightarrow> element list \<Rightarrow> nat list" where
  "document_querySelectorAll sels d = filter (\<lambda>i. matches_any sels (d ! i)) [0..<length d]"

definition element_querySelectorAll :: "selector list \<Rightarrow> element list \<Rightarrow> nat \<Rightarrow> nat list" where
  "element_querySelectorAll sels d i =
     filter (\<lambda>j. j < length d \<and> matches_any sels (d ! j)) (descendants (d ! i))"

definition element_querySelector :: "selector list \<Rightarrow> element list \<Rightarrow> nat \<Rightarrow> bool" where
  "element_querySelector sels d i = (element_querySelectorAll sels d i \<noteq> [])"

definition closest :: "selector list \<Rightarrow> element list \<Rightarrow> nat \<Rightarrow> bool" where
  "closest sels d i =
     (matches_any sels (d ! i) \<or>
      list_ex (\<lambda>j. j < length d \<and> matches_any sels (d ! j)) (ancestors (d ! i)))"

subsection \<open>The controller\<close>

text \<open>
  A timeout callback waiting to run: the swap from the animation class to the steady
  visible marker, or the reveal of one item of a staggered group.
\<close>

datatype callback = SwapToVisible nat string | RevealItem nat

text \<open>
  The controller and what the browser holds for it.  \<open>observers\<close> are the intersection
  observers created so far, each with the set of its targets; \<open>observer\<close> is the position
  of the one in \<^verbatim>\<open>this.observer\<close>, \<open>None\<close> for \<^verbatim>\<open>null\<close>.  \<open>motion_listeners\<close> counts the
  registered handlers of the reduced-motion media query, \<open>timers\<close> are the pending timeouts
  with their delays.
\<close>

record animation =
  dom :: "element list"
  prefersReducedMotion :: bool
  animatedElements :: "nat set"
  observer :: "nat option"
  observers :: "nat set list"
  motion_listeners :: nat
  timers :: "(nat \<times> callback) list"
  has_matchMedia :: bool
  query_addEventListener :: bool
  query_addListener :: bool
  info_log :: "string list"

definition animatableSelectors :: "selector list" where
  "animatableSelectors =
     [AttrSel ''data-animate'', ClassSel ''hero__content'', ClassSel ''section__title'',
      ClassSel ''pioneer-card--featured'', ClassSel ''timeline__item'',
      ClassSel ''resource-item'']"

definition animationClasses :: "(string \<times> string) list" where
  "animationClasses =
     [(''fadeIn'', ''animate-fade-in''), (''slideUp'', ''animate-slide-up''),
      (''slideDown'', ''animate-slide-down''), (''slideLeft'', ''animate-slide-left''),
      (''slideRight'', ''animate-slide-right''), (''stagger'', ''animate-stagger'')]"

definition update_element :: "nat \<Rightarrow> (element \<Rightarrow> element) \<Rightarrow> animation \<Rightarrow> animation" where
  "update_element i f s = s\<lparr>dom := (dom s)[i := f (dom s ! i)]\<rparr>"

definition add_class :: "string \<Rightarrow> element \<Rightarrow> element" where
  "add_class c e = e\<lparr>el_classes := insert c (el_classes e)\<rparr>"

definition remove_class :: "string \<Rightarrow> element \<Rightarrow> element" where
  "remove_class c e = e\<lparr>el_classes := el_classes e - {c}\<rparr>"

definition each :: "nat list \<Rightarrow> (nat \<Rightarrow> animation \<Rightarrow> animation completion) \<Rightarrow> animation
    \<Rightarrow> animation completion" where
  "each items body s = foldl (\<lambda>m i. and_then m (body i)) (Return s) items"

text \<open>
  \<^verbatim>\<open>showAllElements\<close>: every hidden element loses the hidden marker and becomes visible;
  then every element matching an animatable selector becomes visible.
\<close>

definition showAllElements :: "animation \<Rightarrow> animation" where
  "showAllElements s =
     (let hiddenElements = document_querySelectorAll [ClassSel ''animate-hidden''] (dom s);
          s1 = foldl (\<lambda>x i. update_element i
                        (\<lambda>e. add_class ''animate-visible'' (remove_class ''animate-hidden'' e)) x)
                 s hiddenElements
      in foldl (\<lambda>x sel.
                  foldl (\<lambda>y i. if ''animate-visible'' \<notin> el_classes (dom y ! i)
                                then update_element i (add_class ''animate-visible'') y else y)
                    x (document_querySelectorAll [sel] (dom x)))
           s1 animatableSelectors)"

definition shouldSkipElement :: "nat \<Rightarrow> animation \<Rightarrow> bool" where
  "shouldSkipElement i s =
     (if ''pioneer-card--clickable'' \<in> el_classes (dom s ! i) then True
      else if element_querySelector [TagSel ''button''] (dom s) i \<or>
              element_querySelector [AttrEq ''role'' ''button''] (dom s) i then True
      else if ''modal'' \<in> el_classes (dom s ! i) then True
      else if closest [ClassSel ''header''] (dom s) i \<or> ''header'' \<in> el_classes (dom s ! i)
      then True
      else False)"

text \<open>
  \<^verbatim>\<open>this.animationClasses[dataAnimate]\<close> is a property access on an object literal, truthy
  for its own keys and for the members of \<^verbatim>\<open>Object.prototype\<close>.
\<close>

definition has_animation_class :: "string \<Rightarrow> bool" where
  "has_animation_class key =
     (map_of animationClasses key \<noteq> None \<or> object_prototype_get key \<noteq> Undefined)"

definition getAnimationType :: "nat \<Rightarrow> animation \<Rightarrow> string" where
  "getAnimationType i s =
     (let e = dom s ! i;
          inferred =
            (if ''hero__content'' \<in> el_classes e then ''fadeIn''
             else if ''section__title'' \<in> el_classes e then ''slideUp''
             else if ''pioneer-card'' \<in> el_classes e then ''slideUp''
             else if ''timeline__item'' \<in> el_classes e then ''slideLeft''
             else if ''resource-item'' \<in> el_classes e then ''slideUp''
             else if ''modal'' \<in> el_classes e then ''fadeIn''
             else ''fadeIn'')
      in case attrs e ''data-animate'' of
           None \<Rightarrow> inferred
         | Some dataAnimate \<Rightarrow>
             if dataAnimate \<noteq> '''' \<and> has_animation_class dataAnimate then dataAnimate
             else inferred)"

definition matches_or_contains :: "selector \<Rightarrow> nat \<Rightarrow> animation \<Rightarrow> bool" where
  "matches_or_contains sel i s =
     (matches sel (dom s ! i) \<or> element_querySelector [sel] (dom s) i)"

definition isStaggeredElement :: "nat \<Rightarrow> animation \<Rightarrow> bool" where
  "isStaggeredElement i s =
     (if attrs (dom s ! i) ''data-stagger'' \<noteq> None then True
      else list_ex (\<lambda>sel. matches_or_contains sel i s)
             [ClassSel ''carousel__track'', ClassSel ''timeline'', ClassSel ''resources__grid''])"

definition getStaggeredItems :: "nat \<Rightarrow> animation \<Rightarrow> nat list" where
  "getStaggeredItems container s =
     (let itemSelector =
            (if matches_or_contains (ClassSel ''carousel__track'') container s
             then [ClassSel ''pioneer-card'']
             else if matches_or_contains (ClassSel ''timeline'') container s
             then [ClassSel ''timeline__item'']
             else if matches_or_contains (ClassSel ''resources__grid'') container s
             then [ClassSel ''resource-item'']
             else [AttrSel ''data-stagger-item'', ClassSel ''pioneer-card'',
                   ClassSel ''timeline__item'', ClassSel ''resource-item''])
      in element_querySelectorAll itemSelector (dom s) container)"

text \<open>\<^verbatim>\<open>this.observer.observe(element)\<close> and \<^verbatim>\<open>unobserve\<close>; they throw on \<^verbatim>\<open>null\<close>.\<close>

definition observe :: "nat \<Rightarrow> animation \<Rightarrow> animation completion" where
  "observe i s =
     (case observer s of
        None \<Rightarrow> Throw TypeError s
      | Some k \<Rightarrow> Return (s\<lparr>observers := (observers s)[k := insert i (observers s ! k)]\<rparr>))"

definition unobserve :: "nat \<Rightarrow> animation \<Rightarrow> animation completion" where
  "unobserve i s =
     (case observer s of
        None \<Rightarrow> Throw TypeError s
      | Some k \<Rightarrow> Return (s\<lparr>observers := (observers s)[k := observers s ! k - {i}]\<rparr>))"

definition setupStaggeredGroup :: "nat \<Rightarrow> animation \<Rightarrow> animation completion" where
  "setupStaggeredGroup container s =
     (let items = getStaggeredItems container s
      in if length items = 0 then Return s
         else (let s1 = foldl (\<lambda>x (index, item).
                                 update_element item
                                   (\<lambda>e. (add_class ''animate-hidden'' e)
                                           \<lparr>animationType := Some ''stagger'',
                                            staggerIndex := Some index\<rparr>) x)
                          s (enumerate 0 items);
                   s2 = update_element container
                          (\<lambda>e. e\<lparr>animationType := Some ''stagger-container''\<rparr>) s1
               in observe container s2))"

definition mark_setup :: "nat \<Rightarrow> animation \<Rightarrow> animation" where
  "mark_setup i s =
     update_element i (\<lambda>e. e\<lparr>attrs := (attrs e)(''data-animation-setup'' \<mapsto> ''true'')\<rparr>) s"

definition setupElement :: "nat \<Rightarrow> animation \<Rightarrow> animation completion" where
  "setupElement i s =
     (if attrs (dom s ! i) ''data-animation-setup'' \<noteq> None then Return s
      else if shouldSkipElement i s then Return (mark_setup i s)
      else (let animationType' = getAnimationType i s;
                isStaggered = isStaggeredElement i s;
                s1 = update_element i (add_class ''animate-hidden'') s
            in and_then
                 (if isStaggered then setupStaggeredGroup i s1
                  else observe i
                         (update_element i (\<lambda>e. e\<lparr>animationType := Some animationType'\<rparr>) s1))
                 (\<lambda>s2. Return (mark_setup i s2))))"

definition setupAnimatableElements :: "animation \<Rightarrow> animation completion" where
  "setupAnimatableElements s =
     foldl (\<lambda>m sel. and_then m
              (\<lambda>x. each (document_querySelectorAll [sel] (dom x)) setupElement x))
       (Return s) animatableSelectors"

text \<open>
  The class \<^verbatim>\<open>animateSingleElement\<close> applies: the own entry of \<^verbatim>\<open>animationClasses\<close>, the
  fade-in class where the lookup gives \<^verbatim>\<open>undefined\<close>; an inherited member is not a class
  name, and \<^verbatim>\<open>classList.add\<close> rejects its string form.
\<close>

definition animation_class :: "string option \<Rightarrow> string option" where
  "animation_class animationType' =
     (let key = to_string animationType'
      in case map_of animationClasses key of
           Some c \<Rightarrow> Some c
         | None \<Rightarrow> if object_prototype_get key = Undefined then Some ''animate-fade-in''
                    else None)"

definition animateSingleElement :: "nat \<Rightarrow> string option \<Rightarrow> animation \<Rightarrow> animation completion" where
  "animateSingleElement i animationType' s =
     (let s1 = update_element i (remove_class ''animate-hidden'') s
      in case animation_class animationType' of
           None \<Rightarrow> Throw DOMException s1
         | Some animationClass \<Rightarrow>
             Return ((update_element i (add_class animationClass) s1)
                       \<lparr>timers := timers s1 @ [(1000, SwapToVisible i animationClass)]\<rparr>))"

definition animateStaggeredGroup :: "nat \<Rightarrow> animation \<Rightarrow> animation" where
  "animateStaggeredGroup container s =
     s\<lparr>timers := timers s @
          map (\<lambda>(index, item). (index * 150, RevealItem item))
            (enumerate 0 (getStaggeredItems container s))\<rparr>"

definition animateElement :: "nat \<Rightarrow> animation \<Rightarrow> animation completion" where
  "animateElement i s =
     (let animationType' = animationType (dom s ! i)
      in if animationType' = Some ''stagger-container'' then Return (animateStaggeredGroup i s)
         else animateSingleElement i animationType' s)"

definition handleIntersection :: "(nat \<times> bool) list \<Rightarrow> animation \<Rightarrow> animation completion" where
  "handleIntersection entries s =
     foldl (\<lambda>m (target, isIntersecting). and_then m
              (\<lambda>x. if isIntersecting \<and> target \<notin> animatedElements x
                    then and_then (animateElement target x)
                           (\<lambda>y. unobserve target
                                   (y\<lparr>animatedElements := insert target (animatedElements y)\<rparr>))
                    else Return x))
       (Return s) entries"

definition run_callback :: "callback \<Rightarrow> animation \<Rightarrow> animation" where
  "run_callback t s =
     (case t of
        SwapToVisible i animationClass \<Rightarrow>
          update_element i (\<lambda>e. add_class ''animate-visible'' (remove_class animationClass e)) s
      | RevealItem item \<Rightarrow>
          if item \<notin> animatedElements s
          then (update_element item
                  (\<lambda>e. add_class ''animate-slide-up'' (remove_class ''animate-hidden'' e)) s)
                 \<lparr>animatedElements := insert item (animatedElements s),
                  timers := timers s @ [(1000, SwapToVisible item ''animate-slide-up'')]\<rparr>
          else s)"

definition destroy :: "animation \<Rightarrow> animation" where
  "destroy s =
     (case observer s of
        None \<Rightarrow> s
      | Some k \<Rightarrow> s\<lparr>observers := (observers s)[k := {}], observer := None\<rparr>)
     \<lparr>animatedElements := {}\<rparr>"

definition watchReducedMotionPreference :: "animation \<Rightarrow> animation" where
  "watchReducedMotionPreference s =
     (if \<not> has_matchMedia s then s
      else if query_addEventListener s then s\<lparr>motion_listeners := Suc (motion_listeners s)\<rparr>
      else if query_addListener s then s\<lparr>motion_listeners := Suc (motion_listeners s)\<rparr>
      else s)"

definition animation_init :: "animation \<Rightarrow> animation completion" where
  "animation_init s =
     (if prefersReducedMotion s
      then Return (showAllElements
             (s\<lparr>info_log := info_log s @ [''Animations disabled: user prefers reduced motion'']\<rparr>))
      else and_then
             (setupAnimatableElements
                (s\<lparr>observers := observers s @ [{}], observer := Some (length (observers s))\<rparr>))
             (\<lambda>s1. Return (watchReducedMotionPreference s1)))"

definition handleChange :: "bool \<Rightarrow> animation \<Rightarrow> animation completion" where
  "handleChange e_matches s =
     (let s1 = s\<lparr>prefersReducedMotion := e_matches\<rparr>
      in if prefersReducedMotion s1 then Return (showAllElements (destroy s1))
         else animation_init s1)"

text \<open>
  The page before any script ran, with the answer of the reduced-motion media query, and the
  bootstrap of \<^verbatim>\<open>main.js\<close>: \<^verbatim>\<open>new AnimationController()\<close>, whose constructor reads the
  media query unguarded, followed by \<^verbatim>\<open>init()\<close>.
\<close>

record animation_page =
  page_dom :: "element list"
  page_matchMedia :: bool
  page_reduced_motion :: bool
  page_addEventListener :: bool
  page_addListener :: bool

definition AnimationController :: "animation_page \<Rightarrow> animation completion" where
  "AnimationController page =
     (let s = \<lparr>dom = page_dom page,
               prefersReducedMotion = page_reduced_motion page,
               animatedElements = {},
               observer = None,
               observers = [],
               motion_listeners = 0,
               timers = [],
               has_matchMedia = page_matchMedia page,
               query_addEventListener = page_addEventListener page,
               query_addListener = page_addListener page,
               info_log = []\<rparr>
      in if page_matchMedia page then Return s else Throw TypeError s)"

definition start_animations :: "animation_page \<Rightarrow> animation completion" where
  "start_animations page = and_then (AnimationController page) animation_init"

subsection \<open>The session\<close>

text \<open>
  After the bootstrap the controller is reachable only through the callbacks it registered:
  an intersection observer reports entries for targets it observes, the media query reports a
  change to the handlers registered at that moment, a pending timeout fires.
\<close>

datatype animation_event =
    Intersection nat "(nat \<times> bool) list"
  | MotionPreferenceChanged bool
  | Timeout nat

fun repeat_handler :: "nat \<Rightarrow> (animation \<Rightarrow> animation completion) \<Rightarrow> animation \<Rightarrow> animation" where
  "repeat_handler 0 h s = s"
| "repeat_handler (Suc n) h s = repeat_handler n h (state_of (h s))"

fun animation_step :: "animation_event \<Rightarrow> animation \<Rightarrow> animation" where
  "animation_step (Intersection k entries) s =
     (if k < length (observers s)
      then state_of (handleIntersection
                       (filter (\<lambda>(target, isIntersecting). target \<in> observers s ! k) entries) s)
      else s)"
| "animation_step (MotionPreferenceChanged m) s =
     repeat_handler (motion_listeners s) (handleChange m) s"
| "animation_step (Timeout i) s =
     (if i < length (timers s)
      then run_callback (snd (timers s ! i)) (s\<lparr>timers := take i (timers s) @ drop (Suc i) (timers s)\<rparr>)
      else s)"

definition animation_session :: "animation_event list \<Rightarrow> animation \<Rightarrow> animation" where
  "animation_session events s = foldl (\<lambda>x e. animation_step e x) s events"

subsection \<open>Notions used by the animation property\<close>

definition is_animatable :: "element \<Rightarrow> bool" where
  "is_animatable e = matches_any animatableSelectors e"

definition is_hidden :: "element \<Rightarrow> bool" where
  "is_hidden e = (''animate-hidden'' \<in> el_classes e)"

definition is_visible :: "element \<Rightarrow> bool" where
  "is_visible e = (''animate-visible'' \<in> el_classes e)"

text \<open>No observation is installed: no observer exists and no handler or timeout is pending.\<close>

definition nothing_installed :: "animation \<Rightarrow> bool" where
  "nothing_installed s =
     (observer s = None \<and> observers s = [] \<and> motion_listeners s = 0 \<and> timers s = [])"

text \<open>
  A small document: a section title, a timeline with two items, one of them hidden by the
  markup, and a clickable card with a button.
\<close>

definition plain_element :: "string \<Rightarrow> string set \<Rightarrow> nat list \<Rightarrow> nat list \<Rightarrow> element" where
  "plain_element t cs up down =
     \<lparr>tag = t, el_classes = cs, attrs = (\<lambda>a. None), animationType = None,
      staggerIndex = None, ancestors = up, descendants = down\<rparr>"

definition small_document :: "element list" where
  "small_document =
     [plain_element ''h2'' {''section__title''} [] [],
      plain_element ''div'' {''timeline''} [] [2, 3],
      plain_element ''div'' {''timeline__item''} [1] [],
      plain_element ''div'' {''timeline__item'', ''animate-hidden''} [1] [],
      plain_element ''article'' {''pioneer-card'', ''pioneer-card--clickable''} [] [5],
      plain_element ''button'' {''pioneer-card__button''} [4] []]"

definition reduced_motion_page :: animation_page where
  "reduced_motion_page =
     \<lparr>page_dom = small_document, page_matchMedia = True, page_reduced_motion = True,
      page_addEventListener = True, page_addListener = True\<rparr>"

text \<open>
  \<^verbatim>\<open>showAllElements\<close> element by element: the reveal of a hidden element, an update
  applied to the elements that satisfy a test, and the pass over the animatable selectors.
\<close>

definition reveal :: "element \<Rightarrow> element" where
  "reveal e = add_class ''animate-visible'' (remove_class ''animate-hidden'' e)"

definition pointwise :: "(element \<Rightarrow> bool) \<Rightarrow> (element \<Rightarrow> element) \<Rightarrow> element list \<Rightarrow> element list" where
  "pointwise P f d = map (\<lambda>e. if P e then f e else e) d"

definition show_selectors :: "selector list \<Rightarrow> element list \<Rightarrow> element list" where
  "show_selectors sels d =
     foldl (\<lambda>d sel. pointwise (matches_any [sel]) (add_class ''animate-visible'') d) d sels"

section \<open>Properties of completions\<close>

lemma state_of_and_then:
  "state_of (and_then m f) = (if threw m then state_of m else state_of (f (state_of m)))"
  by (cases m) simp_all

lemma threw_and_then: "threw (and_then m f) = (threw m \<or> threw (f (state_of m)))"
  by (cases m) simp_all

section \<open>Properties of the number arithmetic\<close>

text \<open>The exponent brackets the magnitude, between the subnormal range and overflow.\<close>

lemma halvings_bounds:
  "0 \<le> halvings n x \<and> halvings n x \<le> int n \<and> (1 \<le> x \<longrightarrow> 2 powi halvings n x \<le> x) \<and>
   (halvings n x < int n \<longrightarrow> x < 2 powi (halvings n x + 1))"
proof (induction n arbitrary: x)
  case 0
  then show ?case by simp
next
  case (Suc n)
  show ?case
  proof (cases "2 \<le> x")
    case True
    from Suc [of "x / 2"] True show ?thesis
      by (auto simp add: power_int_add)
  next
    case False
    then show ?thesis by simp
  qed
qed

lemma doublings_ge_1: "1 \<le> x \<Longrightarrow> doublings n x = 0"
  by (cases n) simp_all

lemma doublings_bounds:
  "0 \<le> doublings n x \<and> doublings n x \<le> int n \<and>
   (doublings n x < int n \<longrightarrow> 2 powi (- doublings n x) \<le> x) \<and>
   (x < 1 \<longrightarrow> x < 2 powi (1 - doublings n x)) \<and> (x < 1 \<and> 0 < n \<longrightarrow> 1 \<le> doublings n x)"
proof (induction n arbitrary: x)
  case 0
  then show ?case by simp
next
  case (Suc n)
  show ?case
  proof (cases "x < 1")
    case True
    define d where "d = doublings n (2 * x)"
    have eq: "doublings (Suc n) x = 1 + d"
      using True by (simp add: d_def)
    note ih = Suc [of "2 * x", folded d_def]
    have p: "2 powi (- (1 + d)) = (2 powi (- d)) / (2::real)" "(2::real) powi (1 - d) = 2 * 2 powi (- d)"
      "2 powi (1 - (1 + d)) = (2::real) powi (- d)"
      by (simp_all add: power_int_diff power_int_minus field_simps)
    have up: "x < 2 powi (- d)"
    proof (cases "2 * x < 1")
      case True
      then show ?thesis using ih p(2) by simp
    next
      case False
      then have "d = 0" by (simp add: d_def doublings_ge_1)
      then show ?thesis using True by simp
    qed
    show ?thesis
      unfolding eq p using ih up by auto
  next
    case False
    then show ?thesis by simp
  qed
qed

lemma exponent_range: "- 1022 \<le> exponent x" "exponent x \<le> 1023"
  using halvings_bounds [of 1023 "\<bar>x\<bar>"] doublings_bounds [of 1022 "\<bar>x\<bar>"]
  by (simp_all add: exponent_def)

lemma exponent_lower: "- 1022 < exponent x \<Longrightarrow> 2 powi exponent x \<le> \<bar>x\<bar>"
  using halvings_bounds [of 1023 "\<bar>x\<bar>"] doublings_bounds [of 1022 "\<bar>x\<bar>"]
  by (simp add: exponent_def split: if_splits)

lemma exponent_upper: "exponent x < 1023 \<Longrightarrow> \<bar>x\<bar> < 2 powi (exponent x + 1)"
  using halvings_bounds [of 1023 "\<bar>x\<bar>"] doublings_bounds [of 1022 "\<bar>x\<bar>"]
  by (simp add: exponent_def split: if_splits)

lemma exponent_minus [simp]: "exponent (- x) = exponent x"
  by (simp add: exponent_def)

lemma exponent_mono:
  assumes "\<bar>x\<bar> \<le> \<bar>y\<bar>"
  shows "exponent x \<le> exponent y"
proof (rule ccontr)
  assume "\<not> exponent x \<le> exponent y"
  then have lt: "exponent y < exponent x" by simp
  have "- 1022 < exponent x" "exponent y < 1023"
    using lt exponent_range [of x] exponent_range [of y] by simp_all
  then have "2 powi exponent x \<le> \<bar>x\<bar>" "\<bar>y\<bar> < 2 powi (exponent y + 1)"
    by (simp_all add: exponent_lower exponent_upper)
  moreover have "(2::real) powi (exponent y + 1) \<le> 2 powi exponent x"
    using lt by (intro power_int_increasing) simp_all
  ultimately show False using assms by simp
qed

lemma exponent_eqI:
  assumes "2 powi e \<le> \<bar>x\<bar>" "\<bar>x\<bar> < 2 powi (e + 1)" "- 1022 \<le> e" "e \<le> 1023"
  shows "exponent x = e"
proof (rule antisym)
  show "exponent x \<le> e"
  proof (rule ccontr)
    assume "\<not> exponent x \<le> e"
    then have lt: "e + 1 \<le> exponent x" by simp
    then have "2 powi exponent x \<le> \<bar>x\<bar>"
      using assms(3) by (simp add: exponent_lower)
    moreover have "(2::real) powi (e + 1) \<le> 2 powi exponent x"
      using lt by (intro power_int_increasing) simp_all
    ultimately show False using assms(2) by simp
  qed
  show "e \<le> exponent x"
  proof (rule ccontr)
    assume "\<not> e \<le> exponent x"
    then have lt: "exponent x + 1 \<le> e" by simp
    then have "\<bar>x\<bar> < 2 powi (exponent x + 1)"
      using assms(4) by (simp add: exponent_upper)
    moreover have "(2::real) powi (exponent x + 1) \<le> 2 powi e"
      using lt by (intro power_int_increasing) simp_all
    ultimately show False using assms(1) by simp
  qed
qed

lemma exponent_subnormal: "\<bar>x\<bar> < 2 powi (- 1022) \<Longrightarrow> exponent x = - 1022"
  using exponent_lower [of x] exponent_range [of x]
    power_int_increasing [of "- 1022" "exponent x" "2::real"]
  by (cases "exponent x = - 1022") simp_all

lemma ulp_pos [simp]: "0 < ulp x"
  by (simp add: ulp_def)

lemma ulp_nonneg [simp]: "0 \<le> ulp x"
  by (simp add: ulp_def)

lemma ulp_nonzero [simp]: "ulp x \<noteq> 0"
  by (simp add: ulp_def)

lemma ulp_minus [simp]: "ulp (- x) = ulp x"
  by (simp add: ulp_def)

text \<open>Rounding to the nearest integer, ties to even.\<close>

lemma nearest_even_near: "\<bar>z - of_int (nearest_even z)\<bar> \<le> 1 / 2"
  unfolding nearest_even_def Let_def by (simp add: abs_le_iff)

lemma nearest_even_tie: "\<bar>z - of_int (nearest_even z)\<bar> = 1 / 2 \<Longrightarrow> even (nearest_even z)"
  unfolding nearest_even_def Let_def
  by (auto split: if_splits)

lemma nearest_even_unique:
  assumes "\<bar>z - of_int k\<bar> \<le> 1 / 2" "\<bar>z - of_int k\<bar> = 1 / 2 \<longrightarrow> even k"
  shows "nearest_even z = k"
proof -
  let ?n = "nearest_even z"
  have d: "\<bar>of_int ?n - (of_int k :: real)\<bar> \<le> 1"
    using nearest_even_near [of z] assms(1) by linarith
  then have "\<bar>?n - k\<bar> \<le> 1"
    by (metis of_int_diff of_int_abs of_int_le_1_iff)
  then consider "?n = k" | "?n = k + 1" | "?n = k - 1" by linarith
  then show ?thesis
  proof cases
    case 1 then show ?thesis .
  next
    case 2
    then have "z = of_int k + 1 / 2"
      using nearest_even_near [of z] assms(1) by (simp add: abs_le_iff)
    then have "\<bar>z - of_int k\<bar> = 1 / 2" "\<bar>z - of_int ?n\<bar> = 1 / 2"
      using 2 by simp_all
    then have "even k" "even ?n" using assms(2) nearest_even_tie by blast+
    then show ?thesis using 2 by simp
  next
    case 3
    then have "z = of_int k - 1 / 2"
      using nearest_even_near [of z] assms(1) by (simp add: abs_le_iff)
    then have "\<bar>z - of_int k\<bar> = 1 / 2" "\<bar>z - of_int ?n\<bar> = 1 / 2"
      using 3 by simp_all
    then have "even k" "even ?n" using assms(2) nearest_even_tie by blast+
    then show ?thesis using 3 by simp
  qed
qed

lemma nearest_even_of_int [simp]: "nearest_even (of_int k) = k"
  by (rule nearest_even_unique) simp_all

lemma nearest_even_minus: "nearest_even (- z) = - nearest_even z"
  using nearest_even_near [of z] nearest_even_tie [of z]
  by (intro nearest_even_unique) (simp_all add: abs_minus_commute add.commute)

lemma nearest_even_mono:
  assumes "z \<le> w"
  shows "nearest_even z \<le> nearest_even w"
proof (rule ccontr)
  assume "\<not> nearest_even z \<le> nearest_even w"
  then have "nearest_even w + 1 \<le> nearest_even z" by simp
  then have "(of_int (nearest_even w) :: real) + 1 \<le> of_int (nearest_even z)"
    by (metis of_int_le_iff of_int_add of_int_1)
  with nearest_even_near [of z] nearest_even_near [of w] assms
  have "z = w" by (simp add: abs_le_iff) 
  then show False using \<open>\<not> nearest_even z \<le> nearest_even w\<close> by simp
qed


text \<open>Rounding to the binary64 grid is odd, monotone and fixes the grid.\<close>

lemma powi_of_int: "0 \<le> k \<Longrightarrow> (2::real) powi k = of_int (2 ^ nat k)"
  by (simp add: power_int_def)

lemma rounded_minus: "rounded (- x) = - rounded x"
  by (simp add: rounded_def nearest_even_minus)

lemma rounded_fixI:
  assumes "r = of_int k * ulp r"
  shows "rounded r = r"
proof -
  have "r / ulp r = (of_int k * ulp r) / ulp r"
    using assms by (rule arg_cong [where f = "\<lambda>t. t / ulp r"])
  then have "r / ulp r = of_int k"
    by simp
  then have "rounded r = of_int k * ulp r"
    by (simp add: rounded_def)
  then show ?thesis
    using assms by simp
qed

lemma rounded_le_multiple:
  assumes "x \<le> of_int k * ulp x"
  shows "rounded x \<le> of_int k * ulp x"
proof -
  have "x / ulp x \<le> of_int k"
    using assms ulp_pos [of x] by (simp add: field_simps)
  from nearest_even_mono [OF this] have "of_int (nearest_even (x / ulp x)) \<le> (of_int k :: real)"
    by simp
  then show ?thesis
    unfolding rounded_def using ulp_pos [of x] by (simp add: mult_right_mono)
qed

lemma rounded_ge_multiple:
  assumes "of_int k * ulp x \<le> x"
  shows "of_int k * ulp x \<le> rounded x"
proof -
  have "of_int k \<le> x / ulp x"
    using assms ulp_pos [of x] by (simp add: field_simps)
  from nearest_even_mono [OF this] have "(of_int k :: real) \<le> of_int (nearest_even (x / ulp x))"
    by simp
  then show ?thesis
    unfolding rounded_def using ulp_pos [of x] by (simp add: mult_right_mono)
qed

lemma rounded_nonneg: "0 \<le> x \<Longrightarrow> 0 \<le> rounded x"
  using rounded_ge_multiple [of 0 x] by simp

lemma rounded_nonpos: "x \<le> 0 \<Longrightarrow> rounded x \<le> 0"
  using rounded_le_multiple [of x 0] by simp

lemma rounded_0 [simp]: "rounded 0 = 0"
  using rounded_nonneg [of 0] rounded_nonpos [of 0] by simp

lemma powi_multiple:
  assumes "e \<le> b"
  shows "(2::real) powi b = of_int (2 ^ nat (b - e)) * 2 powi e"
proof -
  have "(2::real) powi b = 2 powi (b - e) * 2 powi e"
    by (simp add: power_int_add [symmetric])
  then show ?thesis
    using assms by (simp add: powi_of_int)
qed

lemma rounded_mono_nonneg:
  assumes "0 \<le> x" "x \<le> y"
  shows "rounded x \<le> rounded y"
proof -
  have le: "exponent x \<le> exponent y"
    using assms by (intro exponent_mono) simp
  show ?thesis
  proof (cases "exponent x = exponent y")
    case True
    then have u: "ulp y = ulp x" by (simp add: ulp_def)
    have "x / ulp x \<le> y / ulp x"
      using assms(2) by (intro divide_right_mono) simp_all
    from nearest_even_mono [OF this]
    have "(of_int (nearest_even (x / ulp x)) :: real) \<le> of_int (nearest_even (y / ulp x))"
      by simp
    then show ?thesis
      unfolding rounded_def u using ulp_pos [of x] by (simp add: mult_right_mono)
  next
    case False
    then have lt: "exponent x < exponent y" using le by simp
    define B :: real where "B = 2 powi exponent y"
    have "exponent x < 1023" "- 1022 < exponent y"
      using lt exponent_range [of x] exponent_range [of y] by simp_all
    then have "\<bar>x\<bar> < 2 powi (exponent x + 1)" "B \<le> \<bar>y\<bar>"
      by (simp_all add: exponent_upper exponent_lower B_def)
    moreover have "(2::real) powi (exponent x + 1) \<le> B"
      unfolding B_def using lt by (intro power_int_increasing) simp_all
    ultimately have xB: "x \<le> B" and By: "B \<le> y"
      using assms by simp_all
    have Bx: "B = of_int (2 ^ nat (exponent y - (exponent x - 52))) * ulp x"
      unfolding B_def ulp_def using lt by (intro powi_multiple) simp
    have By': "B = of_int (2 ^ nat (exponent y - (exponent y - 52))) * ulp y"
      unfolding B_def ulp_def by (intro powi_multiple) simp
    have "rounded x \<le> B"
      using rounded_le_multiple [of x "2 ^ nat (exponent y - (exponent x - 52))"] xB Bx by simp
    moreover have "B \<le> rounded y"
      using rounded_ge_multiple [of "2 ^ nat (exponent y - (exponent y - 52))" y] By By' by simp
    ultimately show ?thesis by simp
  qed
qed

lemma rounded_mono:
  assumes "x \<le> y"
  shows "rounded x \<le> rounded y"
proof -
  consider "0 \<le> x" | "y \<le> 0" | "x \<le> 0" "0 \<le> y"
    using assms by linarith
  then show ?thesis
  proof cases
    case 1
    then show ?thesis using assms by (rule rounded_mono_nonneg)
  next
    case 2
    then have "rounded (- y) \<le> rounded (- x)"
      using assms by (intro rounded_mono_nonneg) simp_all
    then show ?thesis by (simp add: rounded_minus)
  next
    case 3
    then show ?thesis
      using rounded_nonpos [of x] rounded_nonneg [of y] by simp
  qed
qed

text \<open>The representable numbers are fixed.\<close>

lemma rounded_representable:
  assumes "r = of_int n * 2 powi (e - 52)" "\<bar>n\<bar> \<le> 2 ^ 53" "- 1022 \<le> e" "e \<le> 1023"
  shows "rounded r = r"
proof (cases "exponent r \<le> e")
  case True
  have "(2::real) powi (e - 52) = of_int (2 ^ nat (e - 52 - (exponent r - 52))) * ulp r"
    unfolding ulp_def using True by (intro powi_multiple) simp
  then have "r = of_int (n * 2 ^ nat (e - 52 - (exponent r - 52))) * ulp r"
    using assms(1) by simp
  then show ?thesis by (rule rounded_fixI)
next
  case False
  then have lt: "e + 1 \<le> exponent r" by simp
  then have lo: "2 powi exponent r \<le> \<bar>r\<bar>"
    using assms(3) by (simp add: exponent_lower)
  have "\<bar>r\<bar> = of_int \<bar>n\<bar> * 2 powi (e - 52)"
    unfolding assms(1) by (simp add: abs_mult)
  also have "\<dots> \<le> of_int (2 ^ 53) * 2 powi (e - 52)"
  proof (rule mult_right_mono)
    show "(of_int \<bar>n\<bar> :: real) \<le> of_int (2 ^ 53)"
      using assms(2) by (simp only: of_int_le_iff)
    show "0 \<le> (2::real) powi (e - 52)" by simp
  qed
  also have "\<dots> = 2 powi (e + 1)"
    using powi_multiple [of "e - 52" "e + 1"] by simp
  finally have hi: "\<bar>r\<bar> \<le> 2 powi (e + 1)" .
  have "(2::real) powi (e + 1) \<le> 2 powi exponent r"
    using lt by (intro power_int_increasing) simp_all
  with lo hi have eq: "\<bar>r\<bar> = 2 powi exponent r" by simp
  have m: "(2::real) powi exponent r = of_int (2 ^ nat (exponent r - (exponent r - 52))) * ulp r"
    unfolding ulp_def by (intro powi_multiple) simp
  show ?thesis
  proof (cases "0 \<le> r")
    case True
    then have "r = of_int (2 ^ nat (exponent r - (exponent r - 52))) * ulp r"
      using eq m by simp
    then show ?thesis by (rule rounded_fixI)
  next
    case False
    then have "r = of_int (- (2 ^ nat (exponent r - (exponent r - 52)))) * ulp r"
      using eq m by simp
    then show ?thesis by (rule rounded_fixI)
  qed
qed

lemma huge_powi: "huge = of_int (2 ^ 53) * 2 powi 971"
proof -
  have e: "(1024::nat) = 53 + 971" by simp
  show ?thesis
    unfolding huge_def by (subst e) (simp only: power_add power_int_numeral of_int_power of_int_numeral)
qed

lemma rounded_idem:
  assumes "\<bar>rounded x\<bar> < huge"
  shows "rounded (rounded x) = rounded x"
proof -
  define n where "n = nearest_even (x / ulp x)"
  have r: "rounded x = of_int n * 2 powi (exponent x - 52)"
    by (simp add: rounded_def n_def ulp_def)
  have "\<bar>n\<bar> \<le> 2 ^ 53"
  proof (cases "exponent x < 1023")
    case True
    then have "\<bar>x\<bar> < 2 powi (exponent x + 1)" by (rule exponent_upper)
    also have "\<dots> = of_int (2 ^ 53) * ulp x"
      unfolding ulp_def using powi_multiple [of "exponent x - 52" "exponent x + 1"] by simp
    finally have b: "x \<le> of_int (2 ^ 53) * ulp x" "of_int (- (2 ^ 53)) * ulp x \<le> x"
      by simp_all
    have "rounded x \<le> of_int (2 ^ 53) * ulp x" "of_int (- (2 ^ 53)) * ulp x \<le> rounded x"
      using rounded_le_multiple [OF b(1)] rounded_ge_multiple [OF b(2)] by simp_all
    then have "(of_int n :: real) \<le> of_int (2 ^ 53)" "(of_int (- (2 ^ 53)) :: real) \<le> of_int n"
      using ulp_pos [of x] unfolding rounded_def n_def [symmetric]
      by (simp_all only: mult_le_cancel_right_pos)
    then show ?thesis
      unfolding of_int_le_iff by simp
  next
    case False
    then have e: "exponent x = 1023" using exponent_range [of x] by simp
    have "\<bar>of_int n :: real\<bar> * 2 powi 971 < huge"
      using assms unfolding r e by (simp add: abs_mult)
    then have "\<bar>of_int n :: real\<bar> < of_int (2 ^ 53)"
      unfolding huge_powi by (simp only: mult_less_cancel_right_pos zero_less_power_int zero_less_numeral)
    then have "\<bar>n\<bar> < 2 ^ 53"
      by (metis of_int_abs of_int_less_iff)
    then show ?thesis by simp
  qed
  then show ?thesis
    using rounded_representable [OF r] exponent_range [of x] by simp
qed


text \<open>The same for the operation results, with their infinities.\<close>

lemma huge_pos: "0 < huge"
  by (simp add: huge_def del: power_numeral)

lemma fl_minus: "fl (- x) = jneg (fl x)"
  using huge_pos by (simp add: fl_def rounded_minus Let_def)

lemma fl_cases:
  obtains (Num) "fl x = Num (rounded x)" "\<bar>rounded x\<bar> < huge"
  | (PosInf) "fl x = PosInf" "huge \<le> rounded x"
  | (NegInf) "fl x = NegInf" "rounded x \<le> - huge"
proof (cases "huge \<le> rounded x")
  case True
  then show ?thesis using that(2) by (simp add: fl_def)
next
  case nh: False
  show ?thesis
  proof (cases "rounded x \<le> - huge")
    case True
    then show ?thesis using nh that(3) by (simp add: fl_def)
  next
    case False
    then show ?thesis using nh that(1) by (simp add: fl_def abs_less_iff)
  qed
qed

lemma fl_Num_iff: "fl x = Num r \<longleftrightarrow> r = rounded x \<and> \<bar>rounded x\<bar> < huge"
  using huge_pos by (auto simp add: fl_def Let_def)

lemma fl_idem: "fl x = Num r \<Longrightarrow> fl r = Num r"
  by (simp add: fl_Num_iff rounded_idem)

lemma fl_0 [simp]: "fl 0 = Num 0"
  using huge_pos by (simp add: fl_Num_iff)

lemma fl_mono: "x \<le> y \<Longrightarrow> \<not> jless (fl y) (fl x)"
  using rounded_mono [of x y] huge_pos
  by (cases x rule: fl_cases; cases y rule: fl_cases) simp_all

lemma is_number_fl [simp]: "is_number (fl x)"
  by (cases "fl x") (simp_all add: is_double_def fl_idem)

lemma is_number_jadd [simp]: "is_number (jadd x y)"
  by (cases x; cases y) simp_all

lemma is_number_jmul [simp]: "is_number (jmul x y)"
  by (cases x; cases y) simp_all

text \<open>The integers up to \<open>2 ^ 53\<close> in magnitude are binary64 values.\<close>

lemma two_53_less_huge: "of_int (2 ^ 53) < huge"
  unfolding huge_def of_int_power of_int_numeral
  by (rule power_strict_increasing) simp_all

lemma fl_of_int:
  assumes "\<bar>n\<bar> \<le> 2 ^ 53"
  shows "fl (of_int n) = Num (of_int n)"
proof -
  have "rounded (of_int n) = of_int n"
    using assms by (intro rounded_representable [of _ n 52]) simp_all
  moreover have "\<bar>of_int n :: real\<bar> \<le> of_int (2 ^ 53)"
    using assms by (metis of_int_abs of_int_le_iff)
  ultimately show ?thesis
    using two_53_less_huge by (simp add: fl_Num_iff)
qed

lemma fl_Ints:
  assumes "x \<in> \<int>" "\<bar>x\<bar> \<le> 2 ^ 53"
  shows "fl x = Num x"
proof -
  from assms(1) obtain n where n: "x = of_int n"
    by (rule Ints_cases)
  have "\<bar>of_int n :: real\<bar> \<le> of_int (2 ^ 53)"
    using assms(2) unfolding n by simp
  then have "\<bar>n\<bar> \<le> 2 ^ 53"
    unfolding of_int_abs [symmetric] of_int_le_iff .
  then show ?thesis
    unfolding n by (rule fl_of_int)
qed




section \<open>Properties of the carousel\<close>

subsection \<open>The small steps\<close>

lemma getMaxIndex_nonneg: "0 \<le> getMaxIndex c"
  by (simp add: getMaxIndex_def)

lemma updateButtons_eq:
  "updateButtons c =
     c\<lparr>prevButton := map_option (set_disabled (currentIndex c = 0 \<and> \<not> infinite c)) (prevButton c),
       nextButton := map_option (set_disabled (currentIndex c \<ge> getMaxIndex c \<and> \<not> infinite c))
                       (nextButton c)\<rparr>"
  by (cases "prevButton c"; cases "nextButton c")
     (simp_all add: updateButtons_def Let_def getMaxIndex_def)

lemma stopAutoplay_eq: "stopAutoplay c = c\<lparr>autoplayInterval := False\<rparr>"
  by (simp add: stopAutoplay_def)

lemma startAutoplay_eq:
  "startAutoplay c = c\<lparr>autoplayInterval := autoplay c \<or> autoplayInterval c\<rparr>"
  by (simp add: startAutoplay_def stopAutoplay_eq)

lemma resume_autoplay_eq: "(if autoplay c then startAutoplay c else c) = startAutoplay c"
  by (simp add: startAutoplay_def)

lemma step_width_pos: "0 < step_width f w"
  by (simp add: step_width_def)

subsection \<open>The index stays in range\<close>

text \<open>
  Whatever happens after the clamp in \<^verbatim>\<open>goToSlide\<close>, also an exception, the index and
  the two quantities that determine \<open>maxIndex\<close> are left alone.
\<close>

lemma add_track_class_frame:
  "currentIndex (state_of (add_track_class cls c)) = currentIndex c"
  "totalSlides (state_of (add_track_class cls c)) = totalSlides c"
  "slidesToShow (state_of (add_track_class cls c)) = slidesToShow c"
  by (simp_all add: add_track_class_def split: option.splits)

lemma updateCarousel_frame:
  "currentIndex (state_of (updateCarousel a c)) = currentIndex c"
  "totalSlides (state_of (updateCarousel a c)) = totalSlides c"
  "slidesToShow (state_of (updateCarousel a c)) = slidesToShow c"
  by (simp_all add: updateCarousel_def Let_def split: option.splits)

lemma goToSlide_frame:
  "currentIndex (state_of (goToSlide i a c)) = max 0 (min i (getMaxIndex c))"
  "totalSlides (state_of (goToSlide i a c)) = totalSlides c"
  "slidesToShow (state_of (goToSlide i a c)) = slidesToShow c"
  by (simp_all add: goToSlide_def Let_def state_of_and_then add_track_class_frame
      updateCarousel_frame updateButtons_eq announceSlide_def)

lemma goToSlide_in_range: "in_range (state_of (goToSlide i a c))"
  using getMaxIndex_nonneg [of c]
  by (simp add: in_range_def goToSlide_frame getMaxIndex_def)

lemma next_in_range: "in_range c \<Longrightarrow> in_range (state_of (next c))"
  by (simp add: next_def goToSlide_in_range Let_def)

lemma prev_in_range: "in_range c \<Longrightarrow> in_range (state_of (prev c))"
  by (simp add: prev_def goToSlide_in_range)

lemma exec_op_in_range: "in_range c \<Longrightarrow> in_range (state_of (exec_op op c))"
  by (cases op) (simp_all add: next_in_range prev_in_range goToSlide_in_range)

lemma run_ops_in_range: "in_range c \<Longrightarrow> in_range (run_ops ops c)"
  unfolding run_ops_def
  by (induction ops arbitrary: c) (simp_all add: exec_op_in_range)

lemma carousel_init_index: "currentIndex (state_of (carousel_init w c)) = currentIndex c"
  by (simp add: carousel_init_def state_of_and_then setupEventListeners_def
      updateSlidesToShow_def updateCarousel_frame updateButtons_eq startAutoplay_eq Let_def
      split: option.splits)

lemma Carousel_in_range: "in_range (state_of (Carousel el opts w))"
  by (simp add: Carousel_def constructed_def Let_def in_range_def getMaxIndex_nonneg
      carousel_init_index)

text \<open>
  Claim C1.  For every carousel the constructor builds, from any container, options and
  window width, the state after any sequence of \<^verbatim>\<open>next()\<close>, \<^verbatim>\<open>prev()\<close> and
  \<^verbatim>\<open>goToSlide(i)\<close> calls with arbitrary integers \<open>i\<close> satisfies
  \<open>0 \<le> currentIndex \<le> max 0 (totalSlides - slidesToShow)\<close>; and with six slides of which
  three are shown, \<^verbatim>\<open>goToSlide(10)\<close> sets the index to 3.  The invariant does not depend on
  the \<open>infinite\<close> option, so it holds in non-infinite mode in particular.
\<close>

theorem carousel_index_stays_in_range:
  "in_range (run_ops ops (state_of (Carousel element options innerWidth))) \<and>
   (totalSlides c = 6 \<and> slidesToShow c = 3 \<longrightarrow>
      currentIndex (state_of (goToSlide 10 animate c)) = 3)"
  by (simp add: run_ops_in_range Carousel_in_range goToSlide_frame getMaxIndex_def)

subsection \<open>Carousels with their anchors\<close>

lemma goToSlide_present:
  assumes "track c \<noteq> None" "viewport c \<noteq> None"
  shows "\<not> threw (goToSlide i a c)"
    and "track (state_of (goToSlide i a c)) \<noteq> None"
    and "viewport (state_of (goToSlide i a c)) = viewport c"
    and "slidesToScroll (state_of (goToSlide i a c)) = slidesToScroll c"
    and "infinite (state_of (goToSlide i a c)) = infinite c"
    and "autoplay (state_of (goToSlide i a c)) = autoplay c"
    and "isDragging (state_of (goToSlide i a c)) = isDragging c"
    and "currentTranslate (state_of (goToSlide i a c)) = prevTranslate (state_of (goToSlide i a c))"
    and "is_number (prevTranslate (state_of (goToSlide i a c)))"
  using assms
  by (auto simp add: goToSlide_def Let_def add_track_class_def updateCarousel_def
      updateButtons_eq announceSlide_def)

lemma goToSlide_anchored:
  assumes "anchored c"
  shows "\<not> threw (goToSlide i a c) \<and> ready (state_of (goToSlide i a c))"
  using assms goToSlide_present [of c i a] goToSlide_in_range [of i a c]
    goToSlide_frame(3) [of i a c]
  by (simp add: ready_def anchored_def)

lemma ready_startAutoplay: "ready (startAutoplay c) = ready c"
  by (simp add: startAutoplay_eq ready_def in_range_def getMaxIndex_def)

lemma goToSlide_ready:
  assumes "ready c"
  shows "\<not> threw (goToSlide i a c) \<and> ready (state_of (goToSlide i a c))"
  using assms goToSlide_present [of c i a] goToSlide_in_range [of i a c]
    goToSlide_frame(3) [of i a c]
  by (simp add: ready_def)

lemma next_ready: "ready c \<Longrightarrow> \<not> threw (next c) \<and> ready (state_of (next c))"
  by (simp add: next_def Let_def goToSlide_ready)

lemma prev_ready: "ready c \<Longrightarrow> \<not> threw (prev c) \<and> ready (state_of (prev c))"
  by (simp add: prev_def goToSlide_ready)

lemma carousel_init_present:
  assumes "track c \<noteq> None" "viewport c \<noteq> None"
  shows "\<not> threw (carousel_init w c)"
    and "track (state_of (carousel_init w c)) \<noteq> None"
    and "viewport (state_of (carousel_init w c)) = viewport c"
    and "slidesToShow (state_of (carousel_init w c)) = step_width (featured c) w"
    and "slidesToScroll (state_of (carousel_init w c)) = 1"
    and "totalSlides (state_of (carousel_init w c)) = totalSlides c"
    and "infinite (state_of (carousel_init w c)) = infinite c"
    and "isDragging (state_of (carousel_init w c)) = isDragging c"
    and "currentTranslate (state_of (carousel_init w c)) =
           prevTranslate (state_of (carousel_init w c))"
    and "is_number (prevTranslate (state_of (carousel_init w c)))"
  using assms step_width_pos [of "featured c" w]
  by (auto simp add: carousel_init_def setupEventListeners_def updateSlidesToShow_def
      updateCarousel_def updateButtons_eq resume_autoplay_eq startAutoplay_eq Let_def
      step_width_def [symmetric])

text \<open>With track, viewport and at least one slide the constructor returns a ready carousel.\<close>

lemma Carousel_ready:
  assumes "q_track el \<noteq> None" "q_viewport el \<noteq> None" "0 < q_slides el"
  shows "\<not> threw (Carousel el opts w)" and "ready (state_of (Carousel el opts w))"
    and "totalSlides (state_of (Carousel el opts w)) = int (q_slides el)"
    and "slidesToShow (state_of (Carousel el opts w)) = step_width (is_featured el) w"
    and "infinite (state_of (Carousel el opts w)) =
          (case opt_infinite opts of None \<Rightarrow> False | Some b \<Rightarrow> b)"
proof -
  define c where "c = constructed el opts"
  have eq: "Carousel el opts w = carousel_init w c"
    using assms by (simp add: Carousel_def c_def Let_def constructed_def)
  have c: "track c \<noteq> None" "viewport c \<noteq> None" "currentIndex c = 0" "\<not> isDragging c"
    "totalSlides c = int (q_slides el)" "featured c = is_featured el"
    "infinite c = (case opt_infinite opts of None \<Rightarrow> False | Some b \<Rightarrow> b)"
    using assms by (simp_all add: c_def constructed_def spread_def split: option.splits)
  note i = carousel_init_present [OF c(1,2), of w]
  show "\<not> threw (Carousel el opts w)"
    using i(1) by (simp add: eq)
  show "ready (state_of (Carousel el opts w))"
    using i carousel_init_index [of w c] c(2,3,4) step_width_pos [of "featured c" w]
    by (simp add: eq ready_def in_range_def getMaxIndex_nonneg)
  show "totalSlides (state_of (Carousel el opts w)) = int (q_slides el)"
    using i(6) c(5) by (simp add: eq)
  show "slidesToShow (state_of (Carousel el opts w)) = step_width (is_featured el) w"
    using i(4) c(6) by (simp add: eq)
  show "infinite (state_of (Carousel el opts w)) =
          (case opt_infinite opts of None \<Rightarrow> False | Some b \<Rightarrow> b)"
    using i(7) c(7) by (simp add: eq)
qed

lemma six_slides_facts:
  "ready (state_of (Carousel six_slides opts 1440))"
  "totalSlides (state_of (Carousel six_slides opts 1440)) = 6"
  "slidesToShow (state_of (Carousel six_slides opts 1440)) = 3"
  "currentIndex (state_of (Carousel six_slides opts 1440)) = 0"
  "infinite (state_of (Carousel six_slides infinite_options 1440))"
proof -
  have el: "q_track six_slides \<noteq> None" "q_viewport six_slides \<noteq> None" "0 < q_slides six_slides"
    by (simp_all add: six_slides_def)
  note r = Carousel_ready [OF el]
  show "ready (state_of (Carousel six_slides opts 1440))"
    by (rule r(2))
  show "totalSlides (state_of (Carousel six_slides opts 1440)) = 6"
    using r(3) [of opts 1440] by (simp add: six_slides_def)
  show "slidesToShow (state_of (Carousel six_slides opts 1440)) = 3"
    using r(4) [of opts 1440] by (simp add: six_slides_def step_width_def)
  show "currentIndex (state_of (Carousel six_slides opts 1440)) = 0"
    by (simp add: Carousel_def Let_def carousel_init_index constructed_def)
  show "infinite (state_of (Carousel six_slides infinite_options 1440))"
    using r(5) [of infinite_options 1440] by (simp add: infinite_options_def main_options_def)
qed

lemma infinite_at_end_facts:
  "ready infinite_at_end" "infinite infinite_at_end" "getMaxIndex infinite_at_end = 3"
  "currentIndex infinite_at_end = 3"
  using goToSlide_ready [OF six_slides_facts(1) [of infinite_options], of 3 True]
    goToSlide_present(5) [of "state_of (Carousel six_slides infinite_options 1440)" 3 True]
    goToSlide_frame [of 3 True "state_of (Carousel six_slides infinite_options 1440)"]
    six_slides_facts(1-4) [of infinite_options] six_slides_facts(5)
  by (simp_all add: infinite_at_end_def getMaxIndex_def ready_def)

theorem carousel_index_stays_in_range_witness:
  "totalSlides (state_of (Carousel six_slides main_options 1440)) = 6 \<and>
   slidesToShow (state_of (Carousel six_slides main_options 1440)) = 3 \<and>
   in_range (run_ops [GoToSlide 10 True, Next, GoToSlide (- 4) False, Prev]
     (state_of (Carousel six_slides main_options 1440))) \<and>
   currentIndex (state_of (goToSlide 10 True (state_of (Carousel six_slides main_options 1440))))
     = 3"
  using carousel_index_stays_in_range
      [of "[GoToSlide 10 True, Next, GoToSlide (- 4) False, Prev]" six_slides main_options 1440
        "state_of (Carousel six_slides main_options 1440)" True]
    six_slides_facts(2,3) [of main_options]
  by simp

text \<open>
  Without a track or without slides the guard fails: the constructor returns and installs no
  listener.  Without a viewport the guard passes and \<^verbatim>\<open>updateCarousel\<close> throws.
\<close>

lemma constructed_fields:
  "track (constructed el opts) = q_track el"
  "viewport (constructed el opts) = q_viewport el"
  "totalSlides (constructed el opts) = int (q_slides el)"
  "listening (constructed el opts) = False"
  by (simp_all add: constructed_def)

lemma Carousel_inert:
  assumes "q_track el = None \<or> q_slides el = 0"
  shows "\<not> threw (Carousel el opts w)" and "\<not> listening (state_of (Carousel el opts w))"
  using assms by (auto simp add: Carousel_def Let_def constructed_fields)

lemma carousel_init_throws:
  assumes "track c \<noteq> None" "viewport c = None"
  shows "threw (carousel_init w c)"
  using assms
  by (auto simp add: carousel_init_def threw_and_then setupEventListeners_def
      updateSlidesToShow_def updateCarousel_def)

lemma Carousel_throws_without_viewport:
  assumes "q_track el \<noteq> None" "0 < q_slides el" "q_viewport el = None"
  shows "threw (Carousel el opts w)"
  using assms
  by (simp add: Carousel_def Let_def constructed_fields carousel_init_throws)

text \<open>
  Claim C3 (evaluation of the code at the failing input).  The guard of the constructor tests
  the container, the track and the slide list, but not the viewport, which
  \<^verbatim>\<open>updateCarousel\<close> dereferences: for a container with track and slides and without a
  \<^verbatim>\<open>.carousel__viewport\<close> the constructor throws.
\<close>

theorem constructor_throws_without_viewport:
  "q_viewport six_slides_no_viewport = None \<and> q_track six_slides_no_viewport \<noteq> None \<and>
   q_slides six_slides_no_viewport = 6 \<and>
   threw (Carousel six_slides_no_viewport main_options 1440)"
  using Carousel_throws_without_viewport [of six_slides_no_viewport main_options 1440]
  by (simp add: six_slides_no_viewport_def six_slides_def)

subsection \<open>Drag gestures\<close>

lemma dragStart_ready:
  assumes "ready c" "getPositionX e = Some x"
  shows "\<not> threw (dragStart e c)" and "dragging c (state_of (dragStart e c))"
    and "startPos (state_of (dragStart e c)) = x"
    and "currentTranslate (state_of (dragStart e c)) = prevTranslate c"
  using assms
  by (auto simp add: ready_def dragStart_def Let_def add_track_class_def stopAutoplay_eq
      dragging_def)

lemma dragMove_dragging:
  assumes "dragging c0 c" "getPositionX e = Some x"
  shows "\<not> threw (dragMove e c)" and "dragging c0 (state_of (dragMove e c))"
    and "startPos (state_of (dragMove e c)) = startPos c"
    and "currentTranslate (state_of (dragMove e c)) =
           jadd (prevTranslate c0) (jsub (Num x) (Num (startPos c)))"
  using assms
  by (auto simp add: dragging_def dragMove_def Let_def set_transform_def)

lemma dragMoves_dragging:
  assumes "dragging c0 c" "map getPositionX es = map Some xs"
  shows "\<not> threw (dragMoves es c) \<and> dragging c0 (state_of (dragMoves es c)) \<and>
         currentTranslate (state_of (dragMoves es c)) =
           (if xs = [] then currentTranslate c
            else jadd (prevTranslate c0) (jsub (Num (last xs)) (Num (startPos c))))"
  using assms
proof (induction es arbitrary: c xs)
  case Nil
  then show ?case by simp
next
  case (Cons e es)
  then obtain x xs' where xs: "xs = x # xs'" "getPositionX e = Some x"
    "map getPositionX es = map Some xs'"
    by (cases xs) auto
  note m = dragMove_dragging [OF Cons.prems(1) xs(2)]
  from Cons.IH [OF m(2) xs(3)] m(1) m(3) m(4) show ?case
    by (simp add: xs(1) threw_and_then state_of_and_then)
qed

text \<open>
  The decision of \<^verbatim>\<open>dragEnd\<close>, for a drag that started from \<open>c0\<close>, on the difference it
  computes.
\<close>

lemma dragEnd_index:
  assumes "dragging c0 c" "viewport c0 \<noteq> None" "in_range c0" "slidesToScroll c0 = 1"
    and "jsub (currentTranslate c) (prevTranslate c0) = m"
  shows "\<not> threw (dragEnd c)"
    and "currentIndex (state_of (dragEnd c)) =
           (if jless m (Num (- 50)) \<and> currentIndex c0 < getMaxIndex c0 then currentIndex c0 + 1
            else if jless (Num 50) m \<and> 0 < currentIndex c0 then currentIndex c0 - 1
            else currentIndex c0)"
proof -
  obtain t where t: "track c = Some t"
    using assms(1) by (auto simp add: dragging_def)
  define c2 where
    "c2 = c\<lparr>isDragging := False,
            track := Some (t\<lparr>classList := classList t - {''carousel__track--dragging''}\<rparr>),
            cursor := ''grab''\<rparr>"
  have c2: "track c2 \<noteq> None" "viewport c2 \<noteq> None" "currentIndex c2 = currentIndex c0"
    "getMaxIndex c2 = getMaxIndex c0" "slidesToScroll c2 = 1"
    "jsub (currentTranslate c2) (prevTranslate c2) = m"
    using assms by (simp_all add: c2_def dragging_def getMaxIndex_def)
  have eq: "dragEnd c =
      and_then
        (if jless m (Num (- 50)) \<and> currentIndex c0 < getMaxIndex c0 then next c2
         else if jless (Num 50) m \<and> currentIndex c0 > 0 then prev c2
         else goToSlide (currentIndex c0) True c2)
        (\<lambda>c3. Return (if autoplay c3 then startAutoplay c3 else c3))"
    using assms(1) t c2(3,4,6)
    by (simp add: dragEnd_def dragging_def remove_track_class_def Let_def c2_def)
  have idx: "0 \<le> currentIndex c0" "currentIndex c0 \<le> getMaxIndex c0"
    using assms(3) by (simp_all add: in_range_def)
  note g = goToSlide_present(1) [OF c2(1,2)] goToSlide_frame(1) [of _ True c2]
  show "\<not> threw (dragEnd c)"
    by (simp add: eq threw_and_then next_def prev_def Let_def g c2)
  show "currentIndex (state_of (dragEnd c)) =
           (if jless m (Num (- 50)) \<and> currentIndex c0 < getMaxIndex c0 then currentIndex c0 + 1
            else if jless (Num 50) m \<and> 0 < currentIndex c0 then currentIndex c0 - 1
            else currentIndex c0)"
    using idx
    by (simp add: eq state_of_and_then next_def prev_def Let_def g c2 startAutoplay_eq)
qed

lemma gesture_index:
  assumes "ready c" "getPositionX e0 = Some x0" "map getPositionX es = map Some xs"
  shows "\<not> threw (gesture e0 es c)"
    and "currentIndex (state_of (gesture e0 es c)) =
           (if jless (movedBy (prevTranslate c) x0 xs) (Num (- 50)) \<and>
               currentIndex c < getMaxIndex c then currentIndex c + 1
            else if jless (Num 50) (movedBy (prevTranslate c) x0 xs) \<and> 0 < currentIndex c
            then currentIndex c - 1
            else currentIndex c)"
proof -
  note s = dragStart_ready [OF assms(1,2)]
  note m = dragMoves_dragging [OF s(2) assms(3)]
  have tr: "jsub (currentTranslate (state_of (dragMoves es (state_of (dragStart e0 c)))))
      (prevTranslate c) = movedBy (prevTranslate c) x0 xs"
    using m s(3,4) by (simp add: movedBy_def)
  have r: "viewport c \<noteq> None" "in_range c" "slidesToScroll c = 1"
    using assms(1) by (simp_all add: ready_def)
  note e = dragEnd_index [OF conjunct1 [OF conjunct2 [OF m]] r tr]
  show "\<not> threw (gesture e0 es c)"
    using s(1) m e(1) by (simp add: gesture_def threw_and_then)
  show "currentIndex (state_of (gesture e0 es c)) =
           (if jless (movedBy (prevTranslate c) x0 xs) (Num (- 50)) \<and>
               currentIndex c < getMaxIndex c then currentIndex c + 1
            else if jless (Num 50) (movedBy (prevTranslate c) x0 xs) \<and> 0 < currentIndex c
            then currentIndex c - 1
            else currentIndex c)"
    using s(1) m e(2) by (simp add: gesture_def state_of_and_then)
qed

text \<open>Readiness is kept by every handler, so it holds throughout a session.\<close>

lemma dragEnd_ready:
  assumes "dragging c0 c" "ready c0"
  shows "ready (state_of (dragEnd c))"
proof -
  obtain t where t: "track c = Some t"
    using assms(1) by (auto simp add: dragging_def)
  define c2 where
    "c2 = c\<lparr>isDragging := False,
            track := Some (t\<lparr>classList := classList t - {''carousel__track--dragging''}\<rparr>),
            cursor := ''grab''\<rparr>"
  have a: "anchored c2"
    using assms by (simp add: c2_def dragging_def ready_def anchored_def)
  have eq: "dragEnd c =
      and_then
        (if jless (jsub (currentTranslate c2) (prevTranslate c2)) (Num (- 50)) \<and>
            currentIndex c2 < getMaxIndex c2 then next c2
         else if jless (Num 50) (jsub (currentTranslate c2) (prevTranslate c2)) \<and>
            currentIndex c2 > 0 then prev c2
         else goToSlide (currentIndex c2) True c2)
        (\<lambda>c3. Return (startAutoplay c3))"
    using assms(1) t
    by (simp add: dragEnd_def dragging_def remove_track_class_def Let_def c2_def
        resume_autoplay_eq)
  show ?thesis
    by (simp add: eq state_of_and_then next_def prev_def Let_def goToSlide_anchored [OF a]
        ready_startAutoplay)
qed

lemma gesture_ready:
  assumes "ready c" "getPositionX e0 = Some x0" "map getPositionX es = map Some xs"
  shows "ready (state_of (gesture e0 es c))"
proof -
  note s = dragStart_ready [OF assms(1,2)]
  note m = dragMoves_dragging [OF s(2) assms(3)]
  have d: "dragging c (state_of (dragMoves es (state_of (dragStart e0 c))))"
    using m by simp
  show ?thesis
    using s(1) m dragEnd_ready [OF d assms(1)]
    by (simp add: gesture_def state_of_and_then)
qed

lemma updateSlidesToShow_anchored:
  "ready c \<Longrightarrow> anchored (updateSlidesToShow w c)"
  using step_width_pos [of "featured c" w]
  by (simp add: ready_def anchored_def updateSlidesToShow_def step_width_def [symmetric])

lemma ready_updateButtons: "ready (updateButtons c) = ready c"
  by (simp add: updateButtons_eq ready_def in_range_def getMaxIndex_def)

lemma on_resize_ready:
  assumes "ready c"
  shows "\<not> threw (on_resize w c) \<and> ready (state_of (on_resize w c))"
  using goToSlide_anchored [OF updateSlidesToShow_anchored [OF assms, of w]]
  by (simp add: on_resize_def threw_and_then state_of_and_then ready_updateButtons)

subsection \<open>The difference that \<^verbatim>\<open>dragEnd\<close> computes\<close>

text \<open>
  Rounding keeps the direction: a pointer that ends at or left of its start never gives a
  positive difference, and one that ends at or right of it never a negative one.  On a track
  resting at an infinite offset the difference is \<^verbatim>\<open>NaN\<close>.
\<close>

lemma fl_nonpos: "x \<le> 0 \<Longrightarrow> \<not> jless (Num 0) (fl x)"
  using fl_mono [of x 0] by simp

lemma fl_nonneg: "0 \<le> x \<Longrightarrow> \<not> jless (fl x) (Num 0)"
  using fl_mono [of 0 x] by simp

lemma jadd_not_above:
  assumes "is_double p" "\<not> jless (Num 0) v"
  shows "\<not> jless (Num p) (jadd (Num p) v)"
proof (cases v)
  case (Num r)
  then have "p + r \<le> p" using assms(2) by simp
  from fl_mono [OF this] show ?thesis
    using assms(1) Num by (simp add: is_double_def)
qed (use assms in simp_all)

lemma jadd_not_below:
  assumes "is_double p" "\<not> jless v (Num 0)"
  shows "\<not> jless (jadd (Num p) v) (Num p)"
proof (cases v)
  case (Num r)
  then have "p \<le> p + r" using assms(2) by simp
  from fl_mono [OF this] show ?thesis
    using assms(1) Num by (simp add: is_double_def)
qed (use assms in simp_all)

lemma jsub_not_above:
  assumes "\<not> jless (Num p) w"
  shows "\<not> jless (Num 0) (jsub w (Num p))"
proof (cases w)
  case (Num a)
  then have "a + - p \<le> 0" using assms by simp
  from fl_nonpos [OF this] show ?thesis
    using Num by (simp add: jsub_def)
qed (use assms in \<open>simp_all add: jsub_def\<close>)

lemma jsub_not_below:
  assumes "\<not> jless w (Num p)"
  shows "\<not> jless (jsub w (Num p)) (Num 0)"
proof (cases w)
  case (Num a)
  then have "0 \<le> a + - p" using assms by simp
  from fl_nonneg [OF this] show ?thesis
    using Num by (simp add: jsub_def)
qed (use assms in \<open>simp_all add: jsub_def\<close>)

lemma jsub_self: "jsub p p = Num 0 \<or> jsub p p = NaN"
  by (cases p) (simp_all add: jsub_def)

lemma movedBy_infinite:
  assumes "p = PosInf \<or> p = NegInf \<or> p = NaN"
  shows "movedBy p x0 xs = NaN"
  using assms
  by (cases "fl (last xs + - x0)") (auto simp add: movedBy_def jsub_def)

lemma movedBy_nonpos:
  assumes "is_number p" "displacement x0 xs \<le> 0"
  shows "\<not> jless (Num 50) (movedBy p x0 xs)"
proof (cases p)
  case (Num a)
  then have a: "is_double a" using assms(1) by simp
  have "\<not> jless (Num 0) (movedBy p x0 xs)"
  proof (cases "xs = []")
    case True
    then show ?thesis
      using jsub_self [of p] by (auto simp add: movedBy_def)
  next
    case False
    then have "last xs + - x0 \<le> 0"
      using assms(2) by (simp add: displacement_def)
    then have "\<not> jless (Num 0) (jsub (Num (last xs)) (Num x0))"
      by (simp add: jsub_def fl_nonpos)
    from jsub_not_above [OF jadd_not_above [OF a this]] show ?thesis
      using False by (simp add: movedBy_def Num)
  qed
  then show ?thesis
    by (cases "movedBy p x0 xs") simp_all
qed (simp_all add: movedBy_infinite)

lemma movedBy_nonneg:
  assumes "is_number p" "0 \<le> displacement x0 xs"
  shows "\<not> jless (movedBy p x0 xs) (Num (- 50))"
proof (cases p)
  case (Num a)
  then have a: "is_double a" using assms(1) by simp
  have "\<not> jless (movedBy p x0 xs) (Num 0)"
  proof (cases "xs = []")
    case True
    then show ?thesis
      using jsub_self [of p] by (auto simp add: movedBy_def)
  next
    case False
    then have "0 \<le> last xs + - x0"
      using assms(2) by (simp add: displacement_def)
    then have "\<not> jless (jsub (Num (last xs)) (Num x0)) (Num 0)"
      by (simp add: jsub_def fl_nonneg)
    from jsub_not_below [OF jadd_not_below [OF a this]] show ?thesis
      using False by (simp add: movedBy_def Num)
  qed
  then show ?thesis
    by (cases "movedBy p x0 xs") simp_all
qed (simp_all add: movedBy_infinite)



subsection \<open>Drag releases\<close>

lemma at_second_slide_facts:
  "ready at_second_slide" "currentIndex at_second_slide = 1" "getMaxIndex at_second_slide = 3"
  "prevTranslate at_second_slide = Num (- 408)"
proof -
  let ?c = "state_of (Carousel six_slides main_options 1440)"
  have n: "at_second_slide = state_of (goToSlide 1 True ?c)"
    using six_slides_facts(1-4) [of main_options]
    by (simp add: at_second_slide_def next_def getMaxIndex_def ready_def)
  show "ready at_second_slide"
    unfolding n using goToSlide_ready [OF six_slides_facts(1)] by simp
  show "currentIndex at_second_slide = 1"
    unfolding n using six_slides_facts(2,3) [of main_options]
    by (simp add: goToSlide_frame getMaxIndex_def)
  show "getMaxIndex at_second_slide = 3"
    unfolding n using six_slides_facts(2,3) [of main_options]
    by (simp add: goToSlide_frame getMaxIndex_def)
  show "prevTranslate at_second_slide = Num (- 408)"
    unfolding n
    by (simp add: Carousel_def constructed_def carousel_init_def setupEventListeners_def
        updateSlidesToShow_def updateCarousel_def updateButtons_eq startAutoplay_eq
        goToSlide_def add_track_class_def announceSlide_def getMaxIndex_def set_translateX_def
        six_slides_def demo_track_def demo_button_def main_options_def spread_def or_default_def
        or_zero_def jsub_def fl_Ints Let_def)
qed


text \<open>
  The threshold is moreover tested on the difference computed in binary64, which need not be
  the displacement of the pointer.  On the carousel at its second slide, with the pointer
  going from 100 to \<open>50 - 1 / 2 ^ 47\<close>, the displacement is beyond 50 pixels, the dragged
  offset \<open>-458 - 1 / 2 ^ 47\<close> rounds to \<open>-458\<close>, the difference is exactly \<open>-50\<close>,
  and the carousel snaps back.
\<close>

lemma rounded_eqI:
  assumes "2 powi e \<le> \<bar>x\<bar>" "\<bar>x\<bar> < 2 powi (e + 1)" "- 1022 \<le> e" "e \<le> 1023"
    and "\<bar>x / 2 powi (e - 52) - of_int k\<bar> < 1 / 2"
  shows "rounded x = of_int k * 2 powi (e - 52)"
proof -
  have e: "exponent x = e"
    using assms(1-4) by (rule exponent_eqI)
  have "nearest_even (x / 2 powi (e - 52)) = k"
    using assms(5) by (intro nearest_even_unique) simp_all
  then show ?thesis
    by (simp add: rounded_def ulp_def e)
qed

lemma less_huge: "\<bar>x\<bar> \<le> 2 ^ 53 \<Longrightarrow> \<bar>x\<bar> < huge"
  using two_53_less_huge by simp

lemma rounding_example:
  "fl (50 - 1 / 2 ^ 47 - 100) = Num (- 50 - 1 / 2 ^ 47)"
  "fl (- 408 + (- 50 - 1 / 2 ^ 47)) = Num (- 458)"
  "fl (- 458 - (- 408)) = Num (- 50)"
proof -
  have "rounded (- 50 - 1 / 2 ^ 47) = - 50 - 1 / 2 ^ 47"
    by (rule rounded_representable [of _ "- (50 * 2 ^ 47 + 1)" 5])
      (simp_all add: power_int_minus field_simps)
  moreover have "\<bar>- 50 - 1 / 2 ^ 47 :: real\<bar> < huge"
    by (rule less_huge) simp
  moreover have "50 - 1 / 2 ^ 47 - 100 = (- 50 - 1 / 2 ^ 47 :: real)"
    by simp
  ultimately show "fl (50 - 1 / 2 ^ 47 - 100) = Num (- 50 - 1 / 2 ^ 47)"
    by (simp only: fl_Num_iff simp_thms)
  have "rounded (- 458 - 1 / 2 ^ 47) = of_int (- (458 * 2 ^ 44)) * 2 powi (8 - 52)"
    by (rule rounded_eqI) (simp_all add: power_int_minus field_simps)
  moreover have "(458::real) < huge"
    using less_huge [of 458] by simp
  ultimately show "fl (- 408 + (- 50 - 1 / 2 ^ 47)) = Num (- 458)"
    by (simp add: fl_Num_iff power_int_minus)
  show "fl (- 458 - (- 408)) = Num (- 50)"
    by (simp add: fl_Ints)
qed

lemma rounded_drag_snaps_back:
  "displacement 100 [50 - 1 / 2 ^ 47] < - 50 \<and>
   movedBy (prevTranslate at_second_slide) 100 [50 - 1 / 2 ^ 47] = Num (- 50) \<and>
   currentIndex (state_of (gesture (MouseEvent 100) [MouseEvent (50 - 1 / 2 ^ 47)]
      at_second_slide)) = currentIndex at_second_slide"
proof -
  define x :: real where "x = 50 - 1 / 2 ^ 47"
  have d: "displacement 100 [x] < - 50"
    by (simp add: displacement_def x_def)
  have m: "movedBy (prevTranslate at_second_slide) 100 [x] = Num (- 50)"
    using rounding_example by (simp add: movedBy_def at_second_slide_facts jsub_def x_def)
  have "displacement 100 [x] < - 50 \<and>
      movedBy (prevTranslate at_second_slide) 100 [x] = Num (- 50) \<and>
      currentIndex (state_of (gesture (MouseEvent 100) [MouseEvent x] at_second_slide)) =
        currentIndex at_second_slide"
    using gesture_index(2) [of at_second_slide "MouseEvent 100" 100 "[MouseEvent x]" "[x]"]
      at_second_slide_facts(1) d
    by (simp add: m getPositionX_def)
  then show ?thesis
    unfolding x_def .
qed



text \<open>
  Claim C10.  When a drag release exceeds the threshold while the carousel is at a boundary
  (at \<open>maxIndex\<close> for a forward drag, at 0 for a backward drag), \<^verbatim>\<open>dragEnd\<close> snaps back
  to that same index, whatever the \<open>infinite\<close> option; whereas \<^verbatim>\<open>next()\<close> at \<open>maxIndex\<close>
  and \<^verbatim>\<open>prev()\<close> at 0 wrap to the opposite bound in infinite mode.
\<close>

theorem drag_release_at_bound_never_wraps:
  assumes "ready c" "getPositionX e0 = Some x0" "map getPositionX es = map Some xs"
  shows
    "(displacement x0 xs < - 50 \<and> currentIndex c = getMaxIndex c \<longrightarrow>
        currentIndex (state_of (gesture e0 es c)) = currentIndex c) \<and>
     (50 < displacement x0 xs \<and> currentIndex c = 0 \<longrightarrow>
        currentIndex (state_of (gesture e0 es c)) = currentIndex c) \<and>
     (infinite c \<and> currentIndex c = getMaxIndex c \<longrightarrow> currentIndex (state_of (next c)) = 0) \<and>
     (infinite c \<and> currentIndex c = 0 \<longrightarrow>
        currentIndex (state_of (prev c)) = getMaxIndex c)"
proof -
  have n: "is_number (prevTranslate c)"
    using assms(1) by (simp add: ready_def)
  show ?thesis
    using gesture_index(2) [OF assms] getMaxIndex_nonneg [of c]
      movedBy_nonpos [OF n, of x0 xs] movedBy_nonneg [OF n, of x0 xs]
    by (simp add: next_def prev_def Let_def goToSlide_frame)
qed

theorem drag_release_at_bound_never_wraps_witness:
  "infinite infinite_at_end \<and> currentIndex infinite_at_end = 3 \<and>
   getMaxIndex infinite_at_end = 3 \<and>
   currentIndex (state_of (gesture (MouseEvent 100) [MouseEvent 40] infinite_at_end)) = 3 \<and>
   currentIndex (state_of (next infinite_at_end)) = 0 \<and>
   infinite (state_of (Carousel six_slides infinite_options 1440)) \<and>
   currentIndex (state_of (gesture (MouseEvent 100) [MouseEvent 170]
      (state_of (Carousel six_slides infinite_options 1440)))) = 0 \<and>
   currentIndex (state_of (prev (state_of (Carousel six_slides infinite_options 1440)))) = 3"
  using drag_release_at_bound_never_wraps
      [of infinite_at_end "MouseEvent 100" 100 "[MouseEvent 40]" "[40]"]
    drag_release_at_bound_never_wraps
      [of "state_of (Carousel six_slides infinite_options 1440)"
        "MouseEvent 100" 100 "[MouseEvent 170]" "[170]"]
    infinite_at_end_facts six_slides_facts(1-4) [of infinite_options] six_slides_facts(5)
  by (simp add: getPositionX_def displacement_def getMaxIndex_def)

section \<open>Properties of the theme switcher\<close>

lemma LIGHT_neq_DARK: "LIGHT \<noteq> DARK"
  by (simp add: LIGHT_def DARK_def)

lemma setTheme_data_theme:
  "data_theme (state_of (setTheme t s)) = Some (if t = LIGHT \<or> t = DARK then t else LIGHT)"
  by (simp add: setTheme_def Let_def savePreference_def warn_def split: option.splits)

lemma setTheme_valid: "valid_theme (data_theme (state_of (setTheme t s)))"
  by (auto simp add: setTheme_data_theme valid_theme_def)

lemma animateIcon_frame:
  "data_theme (state_of (animateIcon s)) = data_theme s"
  "stored (state_of (animateIcon s)) = stored s"
  "setItem_throws (state_of (animateIcon s)) = setItem_throws s"
  "(themeButton (state_of (animateIcon s)) = None) = (themeButton s = None)"
  by (simp_all add: animateIcon_def split: option.splits)

lemma setTheme_frame:
  "setItem_throws (state_of (setTheme t s)) = setItem_throws s"
  "(themeButton (state_of (setTheme t s)) = None) = (themeButton s = None)"
  "change_listeners (state_of (setTheme t s)) = change_listeners s"
  "getItem_throws (state_of (setTheme t s)) = getItem_throws s"
  by (simp_all add: setTheme_def Let_def savePreference_def warn_def split: option.splits)

lemma setTheme_stored:
  "themeButton s \<noteq> None \<Longrightarrow>
   stored (state_of (setTheme t s)) =
     (if setItem_throws s then stored s else Some (if t = LIGHT \<or> t = DARK then t else LIGHT))"
  by (auto simp add: setTheme_def Let_def savePreference_def warn_def)

lemma setTheme_returns: "themeButton s \<noteq> None \<Longrightarrow> \<not> threw (setTheme t s)"
  by (auto simp add: setTheme_def Let_def)

lemma toggle_data_theme:
  "data_theme (state_of (toggle s)) = Some (if getCurrentTheme s = LIGHT then DARK else LIGHT)"
  by (simp add: toggle_def Let_def state_of_and_then animateIcon_frame setTheme_data_theme
      LIGHT_neq_DARK)

lemma toggle_stored:
  "themeButton s \<noteq> None \<Longrightarrow>
   stored (state_of (toggle s)) =
     (if setItem_throws s then stored s
      else Some (if getCurrentTheme s = LIGHT then DARK else LIGHT))"
  by (simp add: toggle_def Let_def state_of_and_then animateIcon_frame setTheme_stored
      LIGHT_neq_DARK)

lemma toggle_frame:
  "setItem_throws (state_of (toggle s)) = setItem_throws s"
  "(themeButton (state_of (toggle s)) = None) = (themeButton s = None)"
  by (simp_all add: toggle_def Let_def state_of_and_then animateIcon_frame setTheme_frame)

lemma getCurrentTheme_valid:
  "valid_theme (data_theme s) \<Longrightarrow> data_theme s = Some (getCurrentTheme s)"
  by (auto simp add: valid_theme_def getCurrentTheme_def or_else_def LIGHT_def DARK_def)

text \<open>
  Two toggles in a state with a button and a valid applied theme: the applied theme comes
  back, and storage ends with that theme unless it rejects writes.
\<close>

lemma toggle_twice:
  assumes "themeButton s \<noteq> None" "valid_theme (data_theme s)"
  shows "data_theme (state_of (toggle (state_of (toggle s)))) = data_theme s \<and>
         stored (state_of (toggle (state_of (toggle s)))) =
           (if setItem_throws s then stored s else data_theme s)"
proof -
  let ?s1 = "state_of (toggle s)"
  have b1: "themeButton ?s1 \<noteq> None"
    using assms(1) by (simp add: toggle_frame)
  have v1: "valid_theme (data_theme ?s1)"
    by (simp add: toggle_data_theme valid_theme_def)
  have c1: "getCurrentTheme ?s1 = (if getCurrentTheme s = LIGHT then DARK else LIGHT)"
    using getCurrentTheme_valid [OF v1] by (simp add: toggle_data_theme)
  have c0: "getCurrentTheme s = LIGHT \<or> getCurrentTheme s = DARK"
    using getCurrentTheme_valid [OF assms(2)] assms(2) by (auto simp add: valid_theme_def)
  have d: "data_theme (state_of (toggle ?s1)) = data_theme s"
    using c0 getCurrentTheme_valid [OF assms(2)]
    by (auto simp add: toggle_data_theme c1 LIGHT_neq_DARK)
  show ?thesis
    using d toggle_stored [OF b1] toggle_stored [OF assms(1)]
    by (simp add: toggle_frame toggle_data_theme)
qed


lemma loadPreference_frame:
  "data_theme (snd (loadPreference s)) = data_theme s"
  "themeButton (snd (loadPreference s)) = themeButton s"
  "stored (snd (loadPreference s)) = stored s"
  "setItem_throws (snd (loadPreference s)) = setItem_throws s"
  "getItem_throws (snd (loadPreference s)) = getItem_throws s"
  by (simp_all add: loadPreference_def warn_def)

lemma watchSystemPreference_frame:
  "data_theme (watchSystemPreference s) = data_theme s"
  "stored (watchSystemPreference s) = stored s"
  "getItem_throws (watchSystemPreference s) = getItem_throws s"
  by (simp_all add: watchSystemPreference_def)

lemma in_sync_button: "in_sync s \<Longrightarrow> themeButton s \<noteq> None"
  by (simp add: in_sync_def)

lemma setTheme_in_sync: "themeButton s \<noteq> None \<Longrightarrow> in_sync (state_of (setTheme t s))"
  by (simp add: in_sync_def setTheme_frame setTheme_stored setTheme_data_theme valid_theme_def)

lemma animateIcon_in_sync: "in_sync s \<Longrightarrow> in_sync (state_of (animateIcon s))"
  by (simp add: in_sync_def animateIcon_frame)

lemma toggle_in_sync:
  assumes "in_sync s"
  shows "in_sync (state_of (toggle s))"
  using setTheme_in_sync [OF in_sync_button [OF assms]]
  by (simp add: toggle_def Let_def state_of_and_then animateIcon_in_sync)

lemma watchSystemPreference_in_sync: "in_sync (watchSystemPreference s) = in_sync s"
  by (simp add: watchSystemPreference_def in_sync_def)

lemma click_listeners_in_sync: "in_sync (s\<lparr>click_listeners := n\<rparr>) = in_sync s"
  by (simp add: in_sync_def)

lemma theme_init_in_sync:
  assumes "themeButton s \<noteq> None"
  shows "in_sync (state_of (theme_init s))"
proof -
  have b: "themeButton (snd (loadPreference s)) \<noteq> None"
    using assms by (simp add: loadPreference_frame)
  show ?thesis
    using setTheme_in_sync [OF b]
    by (simp add: theme_init_def Let_def split_beta state_of_and_then
        watchSystemPreference_in_sync click_listeners_in_sync)
qed

lemma loadPreference_in_sync: "in_sync (snd (loadPreference s)) = in_sync s"
  by (simp add: in_sync_def loadPreference_frame)

lemma on_system_change_in_sync:
  assumes "in_sync s"
  shows "in_sync (state_of (on_system_change m s))"
proof -
  have b: "themeButton (snd (loadPreference s)) \<noteq> None"
    using assms by (simp add: loadPreference_frame in_sync_def)
  show ?thesis
    using setTheme_in_sync [OF b] assms
    by (simp add: on_system_change_def Let_def split_beta loadPreference_in_sync)
qed

lemma dispatch_in_sync:
  assumes "\<And>x. in_sync x \<Longrightarrow> in_sync (state_of (h x))" and "in_sync s"
  shows "in_sync (dispatch n h s)"
  unfolding dispatch_def using assms by (induction n) simp_all

lemma prefers_dark_in_sync: "in_sync (s\<lparr>prefers_dark := m\<rparr>) = in_sync s"
  by (simp add: in_sync_def)

lemma system_change_in_sync: "in_sync s \<Longrightarrow> in_sync (system_change m s)"
  unfolding system_change_def
  by (rule dispatch_in_sync) (simp_all add: on_system_change_in_sync prefers_dark_in_sync)

lemma exec_theme_op_in_sync:
  assumes "in_sync s"
  shows "in_sync (exec_theme_op op s)"
  using assms in_sync_button [OF assms]
  by (cases op)
     (simp_all add: theme_init_in_sync toggle_in_sync setTheme_in_sync system_change_in_sync)

lemma run_theme_ops_in_sync: "in_sync s \<Longrightarrow> in_sync (run_theme_ops ops s)"
  unfolding run_theme_ops_def
  by (induction ops arbitrary: s) (simp_all add: exec_theme_op_in_sync)

lemma ThemeSwitcher_in_sync:
  "themeButton p \<noteq> None \<Longrightarrow> in_sync (state_of (ThemeSwitcher p))"
  by (simp add: ThemeSwitcher_def theme_init_in_sync)

lemma ThemeSwitcher_first_visit:
  "state_of (ThemeSwitcher first_visit) =
     first_visit\<lparr>data_theme := Some LIGHT,
       themeButton := Some \<lparr>aria_label = Some ''Switch to dark theme'', icons_animating = False\<rparr>,
       stored := Some LIGHT, click_listeners := 1, change_listeners := 1\<rparr>"
  by (simp add: first_visit_def ThemeSwitcher_def theme_init_def loadPreference_def
      getSystemPreference_def or_else_def setTheme_def savePreference_def
      watchSystemPreference_def LIGHT_def DARK_def Let_def)

lemma ThemeSwitcher_unwritable_visit:
  "themeButton unwritable_visit \<noteq> None"
  "data_theme (state_of (ThemeSwitcher unwritable_visit)) = Some DARK"
  "stored (state_of (ThemeSwitcher unwritable_visit)) = None"
  by (simp_all add: unwritable_visit_def first_visit_def ThemeSwitcher_def theme_init_def
      loadPreference_def getSystemPreference_def or_else_def setTheme_def savePreference_def
      watchSystemPreference_def warn_def LIGHT_def DARK_def Let_def)

lemma first_visit_writable: "\<not> setItem_throws first_visit"
  by (simp add: first_visit_def)

text \<open>
  Two toggles in any state with a button: the applied theme ends as \<^verbatim>\<open>light\<close> if the
  current theme was \<^verbatim>\<open>light\<close> and as \<^verbatim>\<open>dark\<close> otherwise, and storage ends with that
  theme unless it rejects writes.
\<close>

lemma toggle_twice_any:
  assumes "themeButton s \<noteq> None"
  shows "data_theme (state_of (toggle (state_of (toggle s)))) =
           Some (if getCurrentTheme s = LIGHT then LIGHT else DARK) \<and>
         stored (state_of (toggle (state_of (toggle s)))) =
           (if setItem_throws s then stored s
            else Some (if getCurrentTheme s = LIGHT then LIGHT else DARK))"
proof -
  let ?s1 = "state_of (toggle s)"
  have b1: "themeButton ?s1 \<noteq> None"
    using assms by (simp add: toggle_frame)
  have v1: "valid_theme (data_theme ?s1)"
    by (simp add: toggle_data_theme valid_theme_def)
  have c1: "getCurrentTheme ?s1 = (if getCurrentTheme s = LIGHT then DARK else LIGHT)"
    using getCurrentTheme_valid [OF v1] by (simp add: toggle_data_theme)
  show ?thesis
    using toggle_stored [OF b1] toggle_stored [OF assms]
    by (simp add: toggle_frame toggle_data_theme c1 LIGHT_neq_DARK)
qed

text \<open>
  Claim C5, as stated, holds of every starting state and names the one in which nothing was
  persisted.  With working storage \<^verbatim>\<open>setTheme\<close> persists the theme it applies, whatever
  was stored: after the store was emptied, two toggles leave \<^verbatim>\<open>light\<close> in it, and after
  another tab stored \<^verbatim>\<open>dark\<close>, two toggles replace that by \<^verbatim>\<open>light\<close>.
\<close>

theorem toggle_twice_overwrites_storage:
  "themeButton storage_cleared \<noteq> None \<and> \<not> setItem_throws storage_cleared \<and>
   data_theme storage_cleared = Some LIGHT \<and> stored storage_cleared = None \<and>
   data_theme (state_of (toggle (state_of (toggle storage_cleared)))) = Some LIGHT \<and>
   stored (state_of (toggle (state_of (toggle storage_cleared)))) = Some LIGHT \<and>
   stored (state_of (toggle (state_of (toggle storage_cleared)))) \<noteq> stored storage_cleared \<and>
   themeButton other_tab \<noteq> None \<and> \<not> setItem_throws other_tab \<and>
   data_theme other_tab = Some LIGHT \<and> stored other_tab = Some DARK \<and>
   data_theme (state_of (toggle (state_of (toggle other_tab)))) = Some LIGHT \<and>
   stored (state_of (toggle (state_of (toggle other_tab)))) = Some LIGHT \<and>
   stored (state_of (toggle (state_of (toggle other_tab)))) \<noteq> stored other_tab"
proof -
  have c: "themeButton storage_cleared \<noteq> None" "\<not> setItem_throws storage_cleared"
    "data_theme storage_cleared = Some LIGHT" "stored storage_cleared = None"
    "getCurrentTheme storage_cleared = LIGHT"
    using first_visit_writable
    by (simp_all add: storage_cleared_def ThemeSwitcher_first_visit getCurrentTheme_def
        or_else_def LIGHT_def)
  have t: "themeButton other_tab \<noteq> None" "\<not> setItem_throws other_tab"
    "data_theme other_tab = Some LIGHT" "stored other_tab = Some DARK"
    "getCurrentTheme other_tab = LIGHT"
    using first_visit_writable
    by (simp_all add: other_tab_def ThemeSwitcher_first_visit getCurrentTheme_def
        or_else_def LIGHT_def)
  show ?thesis
    using toggle_twice_any [OF c(1)] toggle_twice_any [OF t(1)] c t LIGHT_neq_DARK
    by simp
qed

text \<open>
  Claim C5, amended.  From every state in which the theme control exists, two calls of
  \<^verbatim>\<open>toggle()\<close> leave the applied theme at \<^verbatim>\<open>light\<close> if the current theme was
  \<^verbatim>\<open>light\<close> and at \<^verbatim>\<open>dark\<close> otherwise, and leave the stored value unchanged if storage
  rejects writes and equal to the applied theme otherwise.  So the applied theme returns to its
  original value whenever that was \<^verbatim>\<open>light\<close> or \<^verbatim>\<open>dark\<close>, and the stored value returns
  to its original value exactly if storage rejects writes or the original value was the
  applied theme.  Both hold in every state reached from the construction on a page with the
  theme control by any sequence of initialisations, toggles, \<^verbatim>\<open>setTheme\<close> calls and OS
  colour-scheme changes.
\<close>

theorem toggle_twice_restores_theme_and_stores_it:
  "(themeButton s \<noteq> None \<longrightarrow>
      data_theme (state_of (toggle (state_of (toggle s)))) =
        Some (if getCurrentTheme s = LIGHT then LIGHT else DARK) \<and>
      stored (state_of (toggle (state_of (toggle s)))) =
        (if setItem_throws s then stored s
         else data_theme (state_of (toggle (state_of (toggle s)))))) \<and>
   (themeButton s \<noteq> None \<and> valid_theme (data_theme s) \<longrightarrow>
      data_theme (state_of (toggle (state_of (toggle s)))) = data_theme s \<and>
      (stored (state_of (toggle (state_of (toggle s)))) = stored s) =
        (setItem_throws s \<or> stored s = data_theme s)) \<and>
   (themeButton p \<noteq> None \<longrightarrow>
      valid_theme (data_theme (run_theme_ops ops (state_of (ThemeSwitcher p)))) \<and>
      (setItem_throws (run_theme_ops ops (state_of (ThemeSwitcher p))) \<or>
       stored (run_theme_ops ops (state_of (ThemeSwitcher p))) =
         data_theme (run_theme_ops ops (state_of (ThemeSwitcher p)))) \<and>
      data_theme (state_of (toggle (state_of (toggle
          (run_theme_ops ops (state_of (ThemeSwitcher p))))))) =
        data_theme (run_theme_ops ops (state_of (ThemeSwitcher p))) \<and>
      stored (state_of (toggle (state_of (toggle
          (run_theme_ops ops (state_of (ThemeSwitcher p))))))) =
        stored (run_theme_ops ops (state_of (ThemeSwitcher p))))"
proof -
  have a: "data_theme (state_of (toggle (state_of (toggle s)))) =
        Some (if getCurrentTheme s = LIGHT then LIGHT else DARK) \<and>
      stored (state_of (toggle (state_of (toggle s)))) =
        (if setItem_throws s then stored s
         else data_theme (state_of (toggle (state_of (toggle s)))))"
    if "themeButton s \<noteq> None"
    using toggle_twice_any [OF that] by simp
  have b: "data_theme (state_of (toggle (state_of (toggle s)))) = data_theme s \<and>
      (stored (state_of (toggle (state_of (toggle s)))) = stored s) =
        (setItem_throws s \<or> stored s = data_theme s)"
    if "themeButton s \<noteq> None" "valid_theme (data_theme s)"
    using toggle_twice [OF that] by auto
  have c: "valid_theme (data_theme (run_theme_ops ops (state_of (ThemeSwitcher p)))) \<and>
      (setItem_throws (run_theme_ops ops (state_of (ThemeSwitcher p))) \<or>
       stored (run_theme_ops ops (state_of (ThemeSwitcher p))) =
         data_theme (run_theme_ops ops (state_of (ThemeSwitcher p)))) \<and>
      data_theme (state_of (toggle (state_of (toggle
          (run_theme_ops ops (state_of (ThemeSwitcher p))))))) =
        data_theme (run_theme_ops ops (state_of (ThemeSwitcher p))) \<and>
      stored (state_of (toggle (state_of (toggle
          (run_theme_ops ops (state_of (ThemeSwitcher p))))))) =
        stored (run_theme_ops ops (state_of (ThemeSwitcher p)))"
    if "themeButton p \<noteq> None"
  proof -
    let ?r = "run_theme_ops ops (state_of (ThemeSwitcher p))"
    have i: "in_sync ?r"
      by (rule run_theme_ops_in_sync [OF ThemeSwitcher_in_sync [OF that]])
    then have h: "themeButton ?r \<noteq> None" "valid_theme (data_theme ?r)"
      by (simp_all add: in_sync_def)
    show ?thesis
      using toggle_twice [OF h] i by (simp add: in_sync_def split: if_splits)
  qed
  show ?thesis
    using a b c by blast
qed

theorem toggle_twice_restores_theme_and_stores_it_witness:
  "themeButton other_tab \<noteq> None \<and> valid_theme (data_theme other_tab) \<and>
   \<not> setItem_throws other_tab \<and> getCurrentTheme other_tab = LIGHT \<and>
   data_theme other_tab = Some LIGHT \<and> stored other_tab = Some DARK \<and>
   data_theme (state_of (toggle (state_of (toggle other_tab)))) = Some LIGHT \<and>
   stored (state_of (toggle (state_of (toggle other_tab)))) = Some LIGHT \<and>
   themeButton first_visit \<noteq> None \<and>
   data_theme (state_of (toggle (state_of (toggle (state_of (ThemeSwitcher first_visit))))))
     = Some LIGHT \<and>
   stored (state_of (toggle (state_of (toggle (state_of (ThemeSwitcher first_visit))))))
     = Some LIGHT \<and>
   themeButton unwritable_visit \<noteq> None \<and>
   setItem_throws (state_of (ThemeSwitcher unwritable_visit)) \<and>
   data_theme (state_of (toggle (state_of (toggle (state_of (ThemeSwitcher unwritable_visit))))))
     = Some DARK \<and>
   stored (state_of (toggle (state_of (toggle (state_of (ThemeSwitcher unwritable_visit))))))
     = None"
proof -
  have t: "themeButton other_tab \<noteq> None" "\<not> setItem_throws other_tab"
    "data_theme other_tab = Some LIGHT" "stored other_tab = Some DARK"
    "getCurrentTheme other_tab = LIGHT"
    using first_visit_writable
    by (simp_all add: other_tab_def ThemeSwitcher_first_visit getCurrentTheme_def
        or_else_def LIGHT_def)
  have u: "setItem_throws (state_of (ThemeSwitcher unwritable_visit))"
    by (simp add: unwritable_visit_def first_visit_def ThemeSwitcher_def theme_init_def
        loadPreference_def getSystemPreference_def or_else_def setTheme_def savePreference_def
        watchSystemPreference_def warn_def LIGHT_def DARK_def Let_def)
  show ?thesis
    using toggle_twice_restores_theme_and_stores_it [of other_tab first_visit "[]"]
      toggle_twice_restores_theme_and_stores_it [of other_tab unwritable_visit "[]"]
      ThemeSwitcher_unwritable_visit t u
    by (simp add: run_theme_ops_def ThemeSwitcher_first_visit valid_theme_def)
      (simp add: first_visit_def)
qed

lemma theme_init_valid: "valid_theme (data_theme (state_of (theme_init s)))"
  by (simp add: theme_init_def Let_def split_beta state_of_and_then setTheme_valid
      watchSystemPreference_frame)

lemma toggle_valid: "valid_theme (data_theme (state_of (toggle s)))"
  by (simp add: toggle_data_theme valid_theme_def)

lemma on_system_change_valid:
  "valid_theme (data_theme s) \<Longrightarrow> valid_theme (data_theme (state_of (on_system_change m s)))"
  by (simp add: on_system_change_def Let_def split_beta setTheme_valid loadPreference_frame)

lemma dispatch_valid:
  assumes "\<And>x. valid_theme (data_theme x) \<Longrightarrow> valid_theme (data_theme (state_of (h x)))"
    and "valid_theme (data_theme s)"
  shows "valid_theme (data_theme (dispatch n h s))"
  unfolding dispatch_def using assms by (induction n) simp_all

lemma system_change_valid:
  "valid_theme (data_theme s) \<Longrightarrow> valid_theme (data_theme (system_change m s))"
  unfolding system_change_def
  by (rule dispatch_valid) (simp_all add: on_system_change_valid)

lemma exec_theme_op_valid:
  "valid_theme (data_theme s) \<or> (\<forall>m. op \<noteq> SystemChange m) \<Longrightarrow>
   valid_theme (data_theme (exec_theme_op op s))"
  by (cases op) (auto simp add: theme_init_valid toggle_valid setTheme_valid system_change_valid)

lemma run_theme_ops_valid:
  "valid_theme (data_theme s) \<Longrightarrow> valid_theme (data_theme (run_theme_ops ops s))"
  unfolding run_theme_ops_def
  by (induction ops arbitrary: s) (simp_all add: exec_theme_op_valid)

lemma ThemeSwitcher_valid:
  "themeButton p \<noteq> None \<Longrightarrow> valid_theme (data_theme (state_of (ThemeSwitcher p)))"
  by (simp add: ThemeSwitcher_def theme_init_valid)

text \<open>
  Claim C9.  After \<^verbatim>\<open>init\<close>, \<^verbatim>\<open>toggle\<close> and \<^verbatim>\<open>setTheme\<close>, from any state and also
  when the call throws, the applied theme is \<^verbatim>\<open>light\<close> or \<^verbatim>\<open>dark\<close>, and the handler of
  an OS colour-scheme change keeps it so; hence it is so after every sequence of operations
  on a theme switcher whose button exists.  \<^verbatim>\<open>setTheme\<close> called with any other value
  applies \<^verbatim>\<open>light\<close>, and persists \<^verbatim>\<open>light\<close> where the button exists and storage accepts
  the write.
\<close>

theorem applied_theme_is_light_or_dark:
  "(valid_theme (data_theme s) \<or> (\<forall>m. op \<noteq> SystemChange m) \<longrightarrow>
      valid_theme (data_theme (exec_theme_op op s))) \<and>
   (themeButton p \<noteq> None \<longrightarrow>
      valid_theme (data_theme (run_theme_ops ops (state_of (ThemeSwitcher p))))) \<and>
   (t \<noteq> LIGHT \<and> t \<noteq> DARK \<longrightarrow>
      data_theme (state_of (setTheme t s)) = Some LIGHT \<and>
      (themeButton s \<noteq> None \<and> \<not> setItem_throws s \<longrightarrow>
         stored (state_of (setTheme t s)) = Some LIGHT))"
  using exec_theme_op_valid [of s op]
  by (simp add: run_theme_ops_valid ThemeSwitcher_valid setTheme_data_theme setTheme_stored)

theorem applied_theme_is_light_or_dark_witness:
  "stored corrupted_visit = Some ''blue'' \<and> themeButton corrupted_visit \<noteq> None \<and>
   \<not> setItem_throws corrupted_visit \<and> ''blue'' \<noteq> LIGHT \<and> ''blue'' \<noteq> DARK \<and>
   valid_theme (data_theme (exec_theme_op (SetTheme ''blue'') corrupted_visit)) \<and>
   valid_theme (data_theme (run_theme_ops [Toggle, SystemChange False, SetTheme ''blue'']
     (state_of (ThemeSwitcher corrupted_visit)))) \<and>
   data_theme (state_of (setTheme ''blue'' corrupted_visit)) = Some LIGHT \<and>
   stored (state_of (setTheme ''blue'' corrupted_visit)) = Some LIGHT \<and>
   data_theme (state_of (ThemeSwitcher corrupted_visit)) = Some LIGHT \<and>
   stored (state_of (ThemeSwitcher corrupted_visit)) = Some LIGHT"
proof -
  have h: "stored corrupted_visit = Some ''blue''" "themeButton corrupted_visit \<noteq> None"
    "\<not> setItem_throws corrupted_visit" "\<not> getItem_throws corrupted_visit"
    "''blue'' \<noteq> LIGHT" "''blue'' \<noteq> DARK"
    by (simp_all add: corrupted_visit_def first_visit_def LIGHT_def DARK_def)
  have i: "ThemeSwitcher corrupted_visit =
      and_then (setTheme ''blue'' corrupted_visit)
        (\<lambda>s2. Return (watchSystemPreference (s2\<lparr>click_listeners := Suc (click_listeners s2)\<rparr>)))"
    using h by (simp add: ThemeSwitcher_def theme_init_def loadPreference_def or_else_def Let_def)
  show ?thesis
    using applied_theme_is_light_or_dark
        [of corrupted_visit "SetTheme ''blue''" corrupted_visit
          "[Toggle, SystemChange False, SetTheme ''blue'']" "''blue''"]
      h setTheme_returns [OF h(2), of "''blue''"]
    by (simp add: i state_of_and_then watchSystemPreference_frame valid_theme_def)
qed

lemma funpow_fixed: "f x = x \<Longrightarrow> (f ^^ n) x = x"
  by (induction n) simp_all

lemma on_system_change_stored:
  "\<not> getItem_throws s \<Longrightarrow> truthy (stored s) \<Longrightarrow> on_system_change m s = Return s"
  by (simp add: on_system_change_def loadPreference_def Let_def)

text \<open>
  With working storage initialisation always stores a theme, so that no later change of the
  OS colour scheme reaches \<^verbatim>\<open>setTheme\<close>.
\<close>

lemma system_change_after_init:
  assumes "themeButton p \<noteq> None" "\<not> getItem_throws p" "\<not> setItem_throws p"
  shows "data_theme (system_change m (state_of (ThemeSwitcher p))) =
         data_theme (state_of (ThemeSwitcher p))"
proof -
  let ?s = "state_of (ThemeSwitcher p)"
  let ?t = "or_else (stored p) (getSystemPreference p)"
  have eq: "ThemeSwitcher p =
      and_then (setTheme ?t p)
        (\<lambda>s2. Return (watchSystemPreference (s2\<lparr>click_listeners := Suc (click_listeners s2)\<rparr>)))"
    using assms by (simp add: ThemeSwitcher_def theme_init_def loadPreference_def Let_def)
  have st: "stored ?s = Some (if ?t = LIGHT \<or> ?t = DARK then ?t else LIGHT)"
    using assms setTheme_returns [OF assms(1), of ?t] setTheme_stored [OF assms(1), of ?t]
    by (simp add: eq state_of_and_then watchSystemPreference_frame)
  have g: "\<not> getItem_throws ?s"
    using assms setTheme_returns [OF assms(1), of ?t]
    by (simp add: eq state_of_and_then watchSystemPreference_frame setTheme_frame)
  have tr: "truthy (stored ?s)"
    unfolding st by (simp add: truthy_def LIGHT_def DARK_def)
  have "on_system_change m (?s\<lparr>prefers_dark := m\<rparr>) = Return (?s\<lparr>prefers_dark := m\<rparr>)"
    using g tr by (simp add: on_system_change_stored)
  then have "system_change m ?s = ?s\<lparr>prefers_dark := m\<rparr>"
    by (simp add: system_change_def dispatch_def funpow_fixed)
  then show ?thesis by simp
qed

text \<open>
  Claim C2 (evaluation of the code at the failing input).  On a first visit nothing is stored
  and the user has chosen nothing; \<^verbatim>\<open>init\<close> applies the OS preference through
  \<^verbatim>\<open>setTheme\<close>, which stores it; the handler of a later OS change then finds a stored
  value and leaves the applied theme as it is.
\<close>

theorem system_change_ignored_after_first_visit:
  "themeButton first_visit \<noteq> None \<and> stored first_visit = None \<and>
   \<not> getItem_throws first_visit \<and> \<not> setItem_throws first_visit \<and>
   change_listeners (state_of (ThemeSwitcher first_visit)) = 1 \<and>
   data_theme (state_of (ThemeSwitcher first_visit)) = Some LIGHT \<and>
   stored (state_of (ThemeSwitcher first_visit)) = Some LIGHT \<and>
   data_theme (system_change True (state_of (ThemeSwitcher first_visit))) = Some LIGHT"
proof -
  have h: "themeButton first_visit \<noteq> None" "\<not> getItem_throws first_visit"
    "\<not> setItem_throws first_visit"
    by (simp_all add: first_visit_def)
  show ?thesis
    using system_change_after_init [OF h, of True]
    by (simp add: first_visit_def ThemeSwitcher_def theme_init_def loadPreference_def
      getSystemPreference_def or_else_def setTheme_def savePreference_def
      watchSystemPreference_def LIGHT_def DARK_def Let_def)
qed

section \<open>Properties of the modal\<close>

lemma property_get_vint_cerf: "property_get pioneersData ''vint-cerf'' = Record vint_cerf"
  by (simp add: property_get_def pioneersData_def)

lemma property_get_constructor:
  "map_of pioneersData ''constructor'' = None"
  "property_get pioneersData ''constructor'' = Function ''Object''"
  by (simp_all add: property_get_def pioneersData_def object_prototype_get_def)

text \<open>A true lookup miss logs the warning and changes nothing else.\<close>

lemma modal_open_undefined:
  "property_get pioneersData pid = Undefined \<Longrightarrow>
   modal_open pid m =
     Return (m\<lparr>modal_console := modal_console m @ [''Pioneer data not found for ID: '' @ pid]\<rparr>)"
  by (simp add: modal_open_def Let_def)

lemma modal_open_undefined_display:
  assumes "property_get pioneersData pid = Undefined"
  shows "displayed (state_of (modal_open pid m)) = displayed m"
    and "isOpen (state_of (modal_open pid m)) = isOpen m"
  by (simp_all add: modal_open_undefined [OF assms] displayed_def)

lemma vint_cerf_name: "p_name vint_cerf = ''Vint Cerf''"
  by (simp add: vint_cerf_def)

lemma viewed_modal_eq:
  "viewed_modal =
     blank_modal\<lparr>
       modalAvatar := Some \<lparr>src = p_image vint_cerf, alt = p_name vint_cerf\<rparr>,
       modalTitle := Some (p_name vint_cerf),
       modalSubtitle := Some (p_role vint_cerf @ '' ('' @ p_years vint_cerf @ '')''),
       modalContent :=
         Some \<lparr>biography = p_bio vint_cerf, list_items = p_achievements vint_cerf\<rparr>,
       previousActiveElement := Some 7,
       modalBackdrop := Some \<lparr>backdrop_active = False, aria_hidden = Some ''true''\<rparr>,
       body_modal_open := False,
       focusableElements := [0],
       firstFocusableElement := Some 0,
       lastFocusableElement := Some 0,
       modal_dialog := Some \<lparr>focusables = [0], keydown_listeners = 1\<rparr>,
       activeElement := Some 7,
       isOpen := False\<rparr>"
  by (simp add: viewed_modal_def modal_open_def property_get_vint_cerf blank_modal_def
      updateContent_def setFocusTrap_def modal_close_def to_string_def to_text_def Let_def)

text \<open>
  Claim C4 (evaluation of the code at the failing input).  The id \<^verbatim>\<open>constructor\<close> is not
  a key of the table, yet the property access finds \<^verbatim>\<open>Object.prototype.constructor\<close>, a
  truthy function: no warning is logged, \<^verbatim>\<open>updateContent\<close> overwrites avatar, title and
  subtitle of the closed modal, and reading \<^verbatim>\<open>achievements.map\<close> throws.
\<close>

theorem open_constructor_overwrites_and_throws:
  "map_of pioneersData ''constructor'' = None \<and>
   \<not> isOpen viewed_modal \<and>
   modalTitle viewed_modal = Some ''Vint Cerf'' \<and>
   modal_console viewed_modal = [] \<and>
   threw (modal_open ''constructor'' viewed_modal) \<and>
   modalTitle (state_of (modal_open ''constructor'' viewed_modal)) = Some ''Object'' \<and>
   modalSubtitle (state_of (modal_open ''constructor'' viewed_modal)) =
     Some ''undefined (undefined)'' \<and>
   modalAvatar (state_of (modal_open ''constructor'' viewed_modal)) =
     Some \<lparr>src = ''undefined'', alt = ''Object''\<rparr> \<and>
   modal_console (state_of (modal_open ''constructor'' viewed_modal)) = []"
  by (simp add: property_get_constructor viewed_modal_eq vint_cerf_name blank_modal_def
      modal_open_def updateContent_def to_string_def to_text_def Let_def)

section \<open>Properties of the scroll spy\<close>



lemma mark_link_idem: "mark_link cur (mark_link cur l) = mark_link cur l"
  by (auto simp add: mark_link_def)

lemma mark_all_length:
  "length (foldl (\<lambda>ls i. ls[i := f (ls ! i)]) ls idxs) = length ls"
  by (induction idxs arbitrary: ls) simp_all

lemma mark_all_nth:
  assumes "\<And>l. f (f l) = f l" "k < length ls"
  shows "foldl (\<lambda>ls i. ls[i := f (ls ! i)]) ls idxs ! k =
           (if k \<in> set idxs then f (ls ! k) else ls ! k)"
  using assms(2)
proof (induction idxs arbitrary: ls)
  case Nil
  then show ?case by simp
next
  case (Cons i idxs)
  have len: "k < length (ls[i := f (ls ! i)])"
    using Cons.prems by simp
  show ?case
  proof (cases "i = k")
    case True
    then show ?thesis
      using Cons.IH [OF len] Cons.prems assms(1) by simp
  next
    case False
    then show ?thesis
      using Cons.IH [OF len] Cons.prems by simp
  qed
qed




lemma updateActiveLink_href:
  assumes "i < length (links p)"
  shows "href (links (updateActiveLink p) ! i) = href (links p ! i)"
proof -
  have h: "href (mark_link cur l) = href l" for cur l
    by (simp add: mark_link_def)
  show ?thesis
    using assms by (simp add: updateActiveLink_def Let_def mark_all_nth mark_link_idem h)
qed














section \<open>Properties of the scroll animations\<close>

lemma query_pointwise:
  assumes "\<And>e. f (f e) = f e"
  shows "foldl (\<lambda>ls i. ls[i := f (ls ! i)]) d (filter (\<lambda>i. P (d ! i)) [0..<length d]) =
         pointwise P f d"
  by (rule nth_equalityI)
     (simp_all add: mark_all_length mark_all_nth assms pointwise_def)

lemma update_elements_dom:
  "foldl (\<lambda>x i. update_element i f x) s idxs =
     s\<lparr>dom := foldl (\<lambda>ls i. ls[i := f (ls ! i)]) (dom s) idxs\<rparr>"
  by (induction idxs arbitrary: s) (simp_all add: update_element_def)

lemma show_if_needed:
  "(if ''animate-visible'' \<notin> el_classes (dom y ! i)
    then update_element i (add_class ''animate-visible'') y else y) =
   update_element i (add_class ''animate-visible'') y"
proof (cases "''animate-visible'' \<in> el_classes (dom y ! i)")
  case True
  then have "add_class ''animate-visible'' (dom y ! i) = dom y ! i"
    by (simp add: add_class_def insert_absorb)
  then show ?thesis
    using True by (simp add: update_element_def)
next
  case False
  then show ?thesis by simp
qed

lemma add_class_idem: "add_class c (add_class c e) = add_class c e"
  by (simp add: add_class_def)

lemma reveal_idem: "reveal (reveal e) = reveal e"
  by (auto simp add: reveal_def add_class_def remove_class_def)

lemma show_selector:
  "foldl (\<lambda>y i. if ''animate-visible'' \<notin> el_classes (dom y ! i)
                 then update_element i (add_class ''animate-visible'') y else y)
     x (document_querySelectorAll [sel] (dom x)) =
   x\<lparr>dom := pointwise (matches_any [sel]) (add_class ''animate-visible'') (dom x)\<rparr>"
  unfolding show_if_needed update_elements_dom document_querySelectorAll_def
  by (simp add: query_pointwise add_class_idem)

lemma show_selectors_state:
  "foldl (\<lambda>x sel.
            foldl (\<lambda>y i. if ''animate-visible'' \<notin> el_classes (dom y ! i)
                          then update_element i (add_class ''animate-visible'') y else y)
              x (document_querySelectorAll [sel] (dom x)))
     s sels =
   s\<lparr>dom := show_selectors sels (dom s)\<rparr>"
  unfolding show_selector show_selectors_def
  by (induction sels arbitrary: s) simp_all

lemma showAllElements_eq:
  "showAllElements s =
     s\<lparr>dom := show_selectors animatableSelectors (pointwise is_hidden reveal (dom s))\<rparr>"
proof -
  have h: "(\<lambda>i. matches_any [ClassSel ''animate-hidden''] (dom s ! i)) = (\<lambda>i. is_hidden (dom s ! i))"
    by (simp add: matches_any_def is_hidden_def)
  have "foldl (\<lambda>x i. update_element i
                        (\<lambda>e. add_class ''animate-visible'' (remove_class ''animate-hidden'' e)) x)
                 s (document_querySelectorAll [ClassSel ''animate-hidden''] (dom s)) =
        s\<lparr>dom := pointwise is_hidden reveal (dom s)\<rparr>"
    unfolding update_elements_dom document_querySelectorAll_def h
    using query_pointwise [where f = reveal and P = is_hidden and d = "dom s"] reveal_idem
    by (simp add: reveal_def [abs_def])
  then show ?thesis
    by (simp add: showAllElements_def Let_def show_selectors_state)
qed

lemma pointwise_length: "length (pointwise P f d) = length d"
  by (simp add: pointwise_def)

lemma pointwise_nth:
  "k < length d \<Longrightarrow> pointwise P f d ! k = (if P (d ! k) then f (d ! k) else d ! k)"
  by (simp add: pointwise_def)

lemma show_selectors_length: "length (show_selectors sels d) = length d"
  unfolding show_selectors_def
  by (induction sels arbitrary: d) (simp_all add: pointwise_length)

lemma is_hidden_reveal: "\<not> is_hidden (reveal e)"
  by (simp add: is_hidden_def reveal_def add_class_def remove_class_def)

lemma is_hidden_add_visible: "is_hidden (add_class ''animate-visible'' e) = is_hidden e"
  by (simp add: is_hidden_def add_class_def)

lemma is_visible_add_visible: "is_visible (add_class ''animate-visible'' e)"
  by (simp add: is_visible_def add_class_def)

text \<open>The animatable selectors do not look at the two markers.\<close>

lemma animatable_add_visible:
  "sel \<in> set animatableSelectors \<Longrightarrow>
   matches sel (add_class ''animate-visible'' e) = matches sel e"
  by (auto simp add: animatableSelectors_def add_class_def)

lemma animatable_reveal:
  "sel \<in> set animatableSelectors \<Longrightarrow> matches sel (reveal e) = matches sel e"
  by (auto simp add: animatableSelectors_def reveal_def add_class_def remove_class_def)

lemma show_selectors_not_hidden:
  "k < length d \<Longrightarrow> \<not> is_hidden (d ! k) \<Longrightarrow> \<not> is_hidden (show_selectors sels d ! k)"
  unfolding show_selectors_def
  by (induction sels arbitrary: d)
     (simp_all add: pointwise_length pointwise_nth is_hidden_add_visible)

lemma show_selectors_keeps_visible:
  "k < length d \<Longrightarrow> is_visible (d ! k) \<Longrightarrow> is_visible (show_selectors sels d ! k)"
  unfolding show_selectors_def
  by (induction sels arbitrary: d)
     (simp_all add: pointwise_length pointwise_nth is_visible_add_visible)

lemma show_selectors_visible:
  assumes "k < length d" "set sels \<subseteq> set animatableSelectors" "sel \<in> set sels"
    "matches sel (d ! k)"
  shows "is_visible (show_selectors sels d ! k)"
  using assms
proof (induction sels arbitrary: d)
  case Nil
  then show ?case by simp
next
  case (Cons a sels)
  let ?d1 = "pointwise (matches_any [a]) (add_class ''animate-visible'') d"
  have step: "show_selectors (a # sels) d = show_selectors sels ?d1"
    by (simp add: show_selectors_def)
  have len: "k < length ?d1"
    using Cons.prems(1) by (simp add: pointwise_length)
  show ?case
  proof (cases "sel = a")
    case True
    then have "is_visible (?d1 ! k)"
      using Cons.prems(1,4)
      by (simp add: pointwise_nth matches_any_def is_visible_add_visible)
    then show ?thesis
      unfolding step by (rule show_selectors_keeps_visible [OF len])
  next
    case False
    have "matches sel (?d1 ! k)"
      using Cons.prems animatable_add_visible [of sel "d ! k"]
      by (auto simp add: pointwise_nth)
    then show ?thesis
      unfolding step using Cons.IH [OF len] Cons.prems(2,3) False by simp
  qed
qed

lemma showAllElements_shows:
  assumes "k < length (dom s)"
  shows "\<not> is_hidden (dom (showAllElements s) ! k)"
    and "is_animatable (dom s ! k) \<Longrightarrow> is_visible (dom (showAllElements s) ! k)"
proof -
  let ?d1 = "pointwise is_hidden reveal (dom s)"
  have len: "k < length ?d1"
    using assms by (simp add: pointwise_length)
  have "\<not> is_hidden (?d1 ! k)"
    using assms by (simp add: pointwise_nth is_hidden_reveal)
  then show "\<not> is_hidden (dom (showAllElements s) ! k)"
    by (simp add: showAllElements_eq show_selectors_not_hidden [OF len])
  assume "is_animatable (dom s ! k)"
  then obtain sel where sel: "sel \<in> set animatableSelectors" "matches sel (dom s ! k)"
    by (auto simp add: is_animatable_def matches_any_def list_ex_iff)
  have "matches sel (?d1 ! k)"
    using assms sel by (simp add: pointwise_nth animatable_reveal)
  from show_selectors_visible [OF len subset_refl sel(1) this]
  show "is_visible (dom (showAllElements s) ! k)"
    by (simp add: showAllElements_eq)
qed

lemma showAllElements_frame:
  "length (dom (showAllElements s)) = length (dom s)"
  "observer (showAllElements s) = observer s"
  "observers (showAllElements s) = observers s"
  "motion_listeners (showAllElements s) = motion_listeners s"
  "timers (showAllElements s) = timers s"
  by (simp_all add: showAllElements_eq show_selectors_length pointwise_length)

lemma start_animations_reduced:
  assumes "page_matchMedia page" "page_reduced_motion page"
  shows "\<not> threw (start_animations page)"
    and "nothing_installed (state_of (start_animations page))"
    and "length (dom (state_of (start_animations page))) = length (page_dom page)"
    and "k < length (page_dom page) \<Longrightarrow> \<not> is_hidden (dom (state_of (start_animations page)) ! k)"
    and "k < length (page_dom page) \<Longrightarrow> is_animatable (page_dom page ! k) \<Longrightarrow>
           is_visible (dom (state_of (start_animations page)) ! k)"
  using assms
  by (simp_all add: start_animations_def AnimationController_def animation_init_def Let_def
      nothing_installed_def showAllElements_frame showAllElements_shows)

text \<open>With nothing installed the browser has no callback to run.\<close>

lemma animation_step_idle: "nothing_installed s \<Longrightarrow> animation_step e s = s"
  by (cases e) (simp_all add: nothing_installed_def)

lemma animation_session_idle: "nothing_installed s \<Longrightarrow> animation_session events s = s"
  unfolding animation_session_def
  by (induction events) (simp_all add: animation_step_idle)

text \<open>
  Claim C8.  When the reduced-motion preference is active at the bootstrap of the animation
  controller, the bootstrap returns; no observer, no media-query handler and no timeout is
  installed; every element matching an animatable selector carries the steady visible marker;
  and after any sequence of browser events of the session no element of the document carries
  the hidden marker, while the animatable ones stay visible.
\<close>

theorem reduced_motion_shows_all_and_never_hides:
  assumes "page_matchMedia page" "page_reduced_motion page"
  shows "\<not> threw (start_animations page) \<and>
         nothing_installed (state_of (start_animations page)) \<and>
         (\<forall>k < length (page_dom page).
            is_animatable (page_dom page ! k) \<longrightarrow>
              is_visible (dom (state_of (start_animations page)) ! k)) \<and>
         (\<forall>k < length (page_dom page).
            \<not> is_hidden (dom (animation_session events (state_of (start_animations page))) ! k) \<and>
            (is_animatable (page_dom page ! k) \<longrightarrow>
               is_visible (dom (animation_session events (state_of (start_animations page))) ! k)))"
  using start_animations_reduced [OF assms]
  by (simp add: animation_session_idle)

lemma small_document_facts:
  "length small_document = 6"
  "is_animatable (small_document ! 0)" "is_animatable (small_document ! 2)"
  "is_animatable (small_document ! 3)" "is_hidden (small_document ! 3)"
  by (simp_all add: small_document_def plain_element_def is_animatable_def is_hidden_def
      animatableSelectors_def matches_any_def)

theorem reduced_motion_shows_all_and_never_hides_witness:
  "page_matchMedia reduced_motion_page \<and> page_reduced_motion reduced_motion_page \<and>
   is_hidden (page_dom reduced_motion_page ! 3) \<and>
   nothing_installed (state_of (start_animations reduced_motion_page)) \<and>
   is_visible (dom (state_of (start_animations reduced_motion_page)) ! 0) \<and>
   is_visible (dom (state_of (start_animations reduced_motion_page)) ! 3) \<and>
   \<not> is_hidden (dom (animation_session
       [MotionPreferenceChanged False, Intersection 0 [(3, True)], Timeout 0]
       (state_of (start_animations reduced_motion_page))) ! 3) \<and>
   is_visible (dom (animation_session
       [MotionPreferenceChanged False, Intersection 0 [(3, True)], Timeout 0]
       (state_of (start_animations reduced_motion_page))) ! 3)"
  using reduced_motion_shows_all_and_never_hides
      [of reduced_motion_page "[MotionPreferenceChanged False, Intersection 0 [(3, True)], Timeout 0]"]
    small_document_facts
  by (simp add: reduced_motion_page_def)

end

